theory Spec2Isabelle
  imports Main "HOL-Library.Word" "HOL-Library.Signed_Division"
begin

unbundle bit_operations_syntax

section \<open>The table engine behind \<^verbatim>\<open>hashtable.h\<close>\<close>

text \<open>
  \<^verbatim>\<open>shmht.c\<close> is the Python binding of a hash table that lives in a memory-mapped file.
  The engine itself (\<^verbatim>\<open>hashtable.h\<close> and its implementation) is not among the sources, so
  the part of it that the binding calls is written down here from the specification. The
  constants the specification leaves open (the magic number, the size of the header, the
  slot stride and the hash function) are the fields of a configuration record that every
  operation takes as a parameter.
\<close>

record config =
  HT_MAGIC :: "64 word"
  header_size :: "64 word"
  slot_size :: "64 word"
  hash :: "string \<Rightarrow> nat"

text \<open>
  Modelled from the spec: the slot of the arena, missing with \<^verbatim>\<open>hashtable.h\<close>. "Each slot
  holds a state tag (empty / occupied / tombstoned), a key blob, and a value blob."
\<close>

datatype slot = Empty | Occupied string string | Tombstone

text \<open>
  Modelled from the spec: the \<^verbatim>\<open>hashtable\<close> struct, missing with \<^verbatim>\<open>hashtable.h\<close>. The
  header holds the "validity marker", "the table's original requested capacity" and the
  "current live-entry count"; the slot arena follows it.
\<close>

record hashtable =
  magic :: "64 word"
  orig_capacity :: "64 word"
  entry_count :: "64 word"
  slots :: "slot list"

text \<open>
  Modelled from the spec: \<^verbatim>\<open>ht_memory_size\<close>. "Map-size formula must be a pure function of
  capacity: header_size + capacity * slot_size". The arithmetic is that of \<^verbatim>\<open>size_t\<close>.
\<close>

definition ht_memory_size :: "config \<Rightarrow> 64 word \<Rightarrow> 64 word" where
  "ht_memory_size cfg capacity = header_size cfg + capacity * slot_size cfg"

text \<open>
  Modelled from the spec: \<^verbatim>\<open>ht_is_valid\<close>. "A header is either absent (file too small /
  zero-filled) or fully valid (magic matches, capacity > 0)."
\<close>

definition ht_is_valid :: "config \<Rightarrow> hashtable \<Rightarrow> bool" where
  "ht_is_valid cfg t = (magic t = HT_MAGIC cfg \<and> 0 < orig_capacity t)"

text \<open>
  Modelled from the spec: \<^verbatim>\<open>ht_init\<close>. "If force_init is true, or no valid header exists:
  ... write a freshly initialized header and zero/empty all slots." A valid table that is
  opened without \<^verbatim>\<open>force_init\<close> is kept as it is.
\<close>

definition ht_init :: "config \<Rightarrow> hashtable \<Rightarrow> 64 word \<Rightarrow> int \<Rightarrow> hashtable" where
  "ht_init cfg t capacity force_init =
     (if force_init = 0 \<and> ht_is_valid cfg t then t
      else \<lparr>magic = HT_MAGIC cfg, orig_capacity = capacity, entry_count = 0,
            slots = replicate (unat capacity) Empty\<rparr>)"

text \<open>
  Modelled from the spec: \<^verbatim>\<open>ht_destroy\<close>. "teardown(segment) -> live_entry_count: returns
  current entry count as a diagnostic when a process detaches, performs no data mutation."
  The result is the count together with the table it leaves behind.
\<close>

definition ht_destroy :: "hashtable \<Rightarrow> 64 word \<times> hashtable" where
  "ht_destroy t = (entry_count t, t)"

text \<open>
  Modelled from the spec: the probe sequence. "Probes the arena starting at hash mod
  capacity using linear probing"; the arena of a table has \<open>capacity\<close> slots, and the
  sequence ends when it has wrapped the entire arena.
\<close>

definition probe_seq :: "config \<Rightarrow> hashtable \<Rightarrow> string \<Rightarrow> nat list" where
  "probe_seq cfg t k =
     (let n = length (slots t) in map (\<lambda>i. (hash cfg k + i) mod n) [0..<n])"

text \<open>
  Modelled from the spec: lookup. "Skipping tombstoned slots but treating them as continue
  probing, stopping at the first empty slot (definitive miss) or at a slot whose stored key
  byte-equals the queried key (hit)." The result is the index of the slot hit.
\<close>

fun find_key :: "slot list \<Rightarrow> string \<Rightarrow> nat list \<Rightarrow> nat option" where
  "find_key sl k [] = None"
| "find_key sl k (i # js) =
     (case sl ! i of
        Empty \<Rightarrow> None
      | Tombstone \<Rightarrow> find_key sl k js
      | Occupied k' v \<Rightarrow> if k' = k then Some i else find_key sl k js)"

text \<open>
  Modelled from the spec: \<^verbatim>\<open>ht_get\<close>, which hands back a pointer to the value blob inside
  the arena (here the index of its slot), or nothing.
\<close>

definition ht_get :: "config \<Rightarrow> hashtable \<Rightarrow> string \<Rightarrow> nat option" where
  "ht_get cfg t k = find_key (slots t) k (probe_seq cfg t k)"

text \<open>
  What \<^verbatim>\<open>value->str\<close> and \<^verbatim>\<open>value->size\<close> give for a pointer that \<^verbatim>\<open>ht_get\<close> returned: the
  value blob stored in that slot at the time of the read.
\<close>

definition value_at :: "hashtable \<Rightarrow> nat \<Rightarrow> string" where
  "value_at t i =
     (if i < length (slots t)
      then (case slots t ! i of Occupied k v \<Rightarrow> v | Empty \<Rightarrow> [] | Tombstone \<Rightarrow> [])
      else [])"

fun find_free :: "slot list \<Rightarrow> nat list \<Rightarrow> nat option" where
  "find_free sl [] = None"
| "find_free sl (i # js) =
     (case sl ! i of
        Occupied k v \<Rightarrow> find_free sl js
      | Empty \<Rightarrow> Some i
      | Tombstone \<Rightarrow> Some i)"

text \<open>
  Modelled from the spec: \<^verbatim>\<open>ht_set\<close>. "If an occupied slot with matching key is found,
  overwrite its value blob; otherwise occupy the first empty-or-tombstoned slot found
  during probing with the new key/value and increment live-entry count. Fails with Full if
  the probe sequence wraps the entire arena without finding a usable slot."
\<close>

definition ht_set :: "config \<Rightarrow> hashtable \<Rightarrow> string \<Rightarrow> string \<Rightarrow> bool \<times> hashtable" where
  "ht_set cfg t k v =
     (case find_key (slots t) k (probe_seq cfg t k) of
        Some i \<Rightarrow> (True, t\<lparr>slots := (slots t)[i := Occupied k v]\<rparr>)
      | None \<Rightarrow>
          (case find_free (slots t) (probe_seq cfg t k) of
             Some i \<Rightarrow>
               (True, t\<lparr>slots := (slots t)[i := Occupied k v],
                        entry_count := entry_count t + 1\<rparr>)
           | None \<Rightarrow> (False, t)))"

text \<open>
  Modelled from the spec: \<^verbatim>\<open>ht_remove\<close>. "Probes as in lookup; on hit, marks the slot
  tombstoned and decrements live-entry count; on miss, reports absent without error."
\<close>

definition ht_remove :: "config \<Rightarrow> hashtable \<Rightarrow> string \<Rightarrow> bool \<times> hashtable" where
  "ht_remove cfg t k =
     (case find_key (slots t) k (probe_seq cfg t k) of
        Some i \<Rightarrow>
          (True, t\<lparr>slots := (slots t)[i := Tombstone], entry_count := entry_count t - 1\<rparr>)
      | None \<Rightarrow> (False, t))"

text \<open>
  Modelled from the spec: what \<^verbatim>\<open>ht_get_iterator\<close> and \<^verbatim>\<open>ht_iter_next\<close> produce. "Linear
  scan of the arena, yielding every occupied (non-empty, non-tombstoned) slot exactly once,
  in arena-index order."
\<close>

fun ht_entries :: "slot list \<Rightarrow> (string \<times> string) list" where
  "ht_entries [] = []"
| "ht_entries (Occupied k v # sl) = (k, v) # ht_entries sl"
| "ht_entries (Empty # sl) = ht_entries sl"
| "ht_entries (Tombstone # sl) = ht_entries sl"

section \<open>The process and the operating system, as \<^verbatim>\<open>shmht.c\<close> sees them\<close>

text \<open>
  A pointer returned by \<^verbatim>\<open>mmap\<close> is \<^verbatim>\<open>NULL\<close>, \<^verbatim>\<open>MAP_FAILED\<close> or the address of a mapping.
\<close>

datatype ptr = NULL | MAP_FAILED | Addr nat

text \<open>\<^verbatim>\<open>struct mapnode\<close>, and the all-zero node that \<^verbatim>\<open>bzero\<close> and \<^verbatim>\<open>memset\<close> leave.\<close>

record mapnode =
  fd :: int
  mem_size :: "64 word"
  ht :: ptr

definition zero_node :: mapnode where
  "zero_node = \<lparr>fd = 0, mem_size = 0, ht = NULL\<rparr>"

definition max_ht_map_entries :: int where
  "max_ht_map_entries = 2048"

text \<open>
  A file of the file system: its length (\<^verbatim>\<open>st_size\<close>) and its bytes, seen through the
  layout of the table (a file that holds something else shows a table that is not valid).
  A file that \<^verbatim>\<open>open\<close> has just created is empty.
\<close>

record backing_file =
  st_size :: nat
  content :: hashtable

definition new_file :: backing_file where
  "new_file = \<lparr>st_size = 0,
     content = \<lparr>magic = 0, orig_capacity = 0, entry_count = 0, slots = []\<rparr>\<rparr>"

text \<open>
  The messages of \<^verbatim>\<open>shmht_error\<close>, one constructor for each \<^verbatim>\<open>PyErr_Format\<close> of the file,
  and the other exceptions that can be pending: the \<^verbatim>\<open>TypeError\<close> of \<^verbatim>\<open>shmht_foreach\<close>, the
  \<^verbatim>\<open>OverflowError\<close> of \<^verbatim>\<open>PyArg_ParseTuple\<close> and whatever a visitor raises. \<open>Segfault\<close> is
  not an exception: it stands for the death of the process when a pointer of the registry
  that maps nothing is dereferenced.
\<close>

datatype shmht_msg =
    OpenFailed
  | HeaderMmapFailed
  | SmallerCapacity
  | CapacityRequired
  | LseekFailed
  | WriteFailed
  | MmapFailed
  | ExceededMaxEntries
  | InvalidHtId int
  | MunmapFailed
  | InsertFailed

datatype pyexc =
    ShmhtError shmht_msg
  | TypeError
  | OverflowError
  | Raised string
  | Segfault

datatype pyobj = PyInt int | PyNone | PyTrue | PyFalse | PyString string

text \<open>
  The second argument of \<^verbatim>\<open>foreach\<close>: a callable, which returns or raises on each entry,
  or some other object. The callable is a function of the key and the value alone: it
  does not call back into the module. A visitor that did (a get on the handle that is
  being scanned ends with \<^verbatim>\<open>myunlock\<close> on the same descriptor) is not described by this
  type, and nothing below speaks about it.
\<close>

datatype visitor = Callable "string \<Rightarrow> string \<Rightarrow> pyexc option" | NotCallable

text \<open>
  What an operation does to shared resources, in order: taking and releasing the file
  lock, touching the mapped table through a pointer (with the fact whether the process
  held the lock of that segment's descriptor at that moment), and calling the visitor.
\<close>

datatype event =
    EvLock int
  | EvUnlock int
  | EvAccess ptr bool
  | EvCall string string

text \<open>
  The state: the files by name, the process's open descriptors and live mappings (with
  the file each belongs to), the descriptors on which it holds \<^verbatim>\<open>flock\<close>, the two statics
  \<^verbatim>\<open>ht_map\<close> and \<^verbatim>\<open>ht_idx\<close>, Python's error indicator, and the events so far. An index of
  \<^verbatim>\<open>ht_map\<close> outside \<open>0 ..< 2048\<close> is outside the array.
\<close>

record world =
  files :: "string \<Rightarrow> backing_file option"
  fdtab :: "int \<Rightarrow> string option"
  mappings :: "nat \<Rightarrow> (string \<times> 64 word) option"
  flocked :: "int set"
  ht_map :: "int \<Rightarrow> mapnode"
  ht_idx :: int
  err :: "pyexc option"
  trace :: "event list"

text \<open>
  What the system calls of one \<^verbatim>\<open>shmht_open\<close> return: the descriptor (or a negative
  number), the addresses of the two mappings (or \<^verbatim>\<open>MAP_FAILED\<close>), and whether \<^verbatim>\<open>lseek\<close>
  and \<^verbatim>\<open>write\<close> succeed.
\<close>

record open_env =
  open_ret :: int
  hdr_mmap_ret :: "nat option"
  lseek_ok :: bool
  write_ok :: bool
  mmap_ret :: "nat option"

subsection \<open>Primitives\<close>

text \<open>
  \<^verbatim>\<open>mylock\<close> and \<^verbatim>\<open>myunlock\<close>. The source ignores the result of \<^verbatim>\<open>flock\<close>; the model takes
  the call to succeed.
\<close>

definition mylock :: "int \<Rightarrow> world \<Rightarrow> world" where
  "mylock d w = w\<lparr>flocked := insert d (flocked w), trace := trace w @ [EvLock d]\<rparr>"

definition myunlock :: "int \<Rightarrow> world \<Rightarrow> world" where
  "myunlock d w = w\<lparr>flocked := flocked w - {d}, trace := trace w @ [EvUnlock d]\<rparr>"

text \<open>\<^verbatim>\<open>close(fd)\<close>: the descriptor is gone, and with it a lock it still held.\<close>

definition sys_close :: "int \<Rightarrow> world \<Rightarrow> world" where
  "sys_close d w = w\<lparr>fdtab := (fdtab w)(d := None), flocked := flocked w - {d}\<rparr>"

text \<open>
  \<^verbatim>\<open>munmap\<close>: an address loses its mapping; \<^verbatim>\<open>MAP_FAILED\<close> is not an address that can be
  unmapped, and the call fails.
\<close>

definition munmap :: "ptr \<Rightarrow> world \<Rightarrow> bool \<times> world" where
  "munmap p w =
     (case p of
        Addr a \<Rightarrow> (True, w\<lparr>mappings := (mappings w)(a := None)\<rparr>)
      | MAP_FAILED \<Rightarrow> (False, w)
      | NULL \<Rightarrow> (False, w))"

definition PyErr_Format :: "pyexc \<Rightarrow> world \<Rightarrow> world" where
  "PyErr_Format e w = w\<lparr>err := Some e\<rparr>"

text \<open>The table behind a pointer: the content of the file that the address maps.\<close>

definition table_at :: "world \<Rightarrow> ptr \<Rightarrow> hashtable option" where
  "table_at w p =
     (case p of
        Addr a \<Rightarrow>
          (case mappings w a of
             Some (nm, len) \<Rightarrow> map_option content (files w nm)
           | None \<Rightarrow> None)
      | MAP_FAILED \<Rightarrow> None
      | NULL \<Rightarrow> None)"

text \<open>A store through the pointer: the mapping is shared, so the file changes.\<close>

definition table_update :: "ptr \<Rightarrow> hashtable \<Rightarrow> world \<Rightarrow> world" where
  "table_update p t w =
     (case p of
        Addr a \<Rightarrow>
          (case mappings w a of
             Some (nm, len) \<Rightarrow>
               w\<lparr>files := (files w)(nm := map_option (\<lambda>f. f\<lparr>content := t\<rparr>) (files w nm))\<rparr>
           | None \<Rightarrow> w)
      | MAP_FAILED \<Rightarrow> w
      | NULL \<Rightarrow> w)"

text \<open>
  One touch of the mapped table through \<open>p\<close>, by an operation that works on the segment
  of descriptor \<open>d\<close>.
\<close>

definition access :: "ptr \<Rightarrow> int \<Rightarrow> world \<Rightarrow> world" where
  "access p d w = w\<lparr>trace := trace w @ [EvAccess p (d \<in> flocked w)]\<rparr>"

subsection \<open>\<^verbatim>\<open>shmht_open\<close>\<close>

text \<open>
  The \<^verbatim>\<open>for\<close> loop of lines 147 to 153, on \<^verbatim>\<open>ht_idx\<close> and \<^verbatim>\<open>count\<close>: the body adds one to
  \<^verbatim>\<open>count\<close>, and so does the loop header after each round that did not \<^verbatim>\<open>break\<close>. The result
  is the pair of the two variables when the loop is left. \<^verbatim>\<open>%\<close> is C's remainder.
\<close>

function slot_search :: "(int \<Rightarrow> mapnode) \<Rightarrow> int \<Rightarrow> int \<Rightarrow> int \<times> int" where
  "slot_search hm idx count =
     (if count < max_ht_map_entries then
        (let idx' = (idx + 1) smod max_ht_map_entries;
             count' = count + 1
         in if ht (hm idx') = NULL then (idx', count')
            else slot_search hm idx' (count' + 1))
      else (idx, count))"
  by pat_completeness auto
termination
  by (relation "measure (\<lambda>(hm, idx, count). nat (max_ht_map_entries - count))")
     (auto simp: max_ht_map_entries_def)

declare slot_search.simps [simp del]

text \<open>
  The label \<^verbatim>\<open>create_failed\<close>: the descriptor is unlocked and closed, and a pointer that
  is not \<^verbatim>\<open>NULL\<close> is unmapped. The function returns \<^verbatim>\<open>NULL\<close>.
\<close>

definition create_failed :: "int \<Rightarrow> ptr \<Rightarrow> world \<Rightarrow> pyobj option \<times> world" where
  "create_failed d p w =
     (let w1 = (if 0 \<le> d then sys_close d (myunlock d w) else w);
          w2 = (if p \<noteq> NULL then snd (munmap p w1) else w1)
      in (None, w2))"

text \<open>Lines 146 to 163: the search for a slot of the registry, and the registration.\<close>

definition register_segment :: "int \<Rightarrow> 64 word \<Rightarrow> ptr \<Rightarrow> world \<Rightarrow> pyobj option \<times> world" where
  "register_segment d msz p w =
     (let (idx, count) = slot_search (ht_map w) (ht_idx w) 0;
          w1 = w\<lparr>ht_idx := idx\<rparr>
      in if max_ht_map_entries \<le> count
         then create_failed d p (PyErr_Format (ShmhtError ExceededMaxEntries) w1)
         else (Some (PyInt idx),
               myunlock d
                 (w1\<lparr>ht_map := (ht_map w1)(idx := \<lparr>fd = d, mem_size = msz, ht = p\<rparr>)\<rparr>)))"

text \<open>
  Lines 119 to 145: the capacity must not be zero; the file is extended to the size the
  capacity needs, mapped in full and handed to \<^verbatim>\<open>ht_init\<close>. \<open>st\<close> is the \<^verbatim>\<open>st_size\<close> that
  \<^verbatim>\<open>fstat\<close> reported.
\<close>

definition create_table ::
  "config \<Rightarrow> open_env \<Rightarrow> string \<Rightarrow> int \<Rightarrow> nat \<Rightarrow> 64 word \<Rightarrow> int \<Rightarrow> world
     \<Rightarrow> pyobj option \<times> world" where
  "create_table cfg env name d st capacity force_init w =
     (if capacity = 0
      then create_failed d NULL (PyErr_Format (ShmhtError CapacityRequired) w)
      else
        let msz = ht_memory_size cfg capacity in
        if st < unat msz \<and> \<not> lseek_ok env
        then create_failed d NULL (PyErr_Format (ShmhtError LseekFailed) w)
        else if st < unat msz \<and> \<not> write_ok env
        then create_failed d NULL (PyErr_Format (ShmhtError WriteFailed) w)
        else
          let w1 = (if st < unat msz
                    then w\<lparr>files := (files w)(name :=
                            map_option (\<lambda>f. f\<lparr>st_size := unat msz\<rparr>) (files w name))\<rparr>
                    else w)
          in case mmap_ret env of
               None \<Rightarrow> create_failed d MAP_FAILED (PyErr_Format (ShmhtError MmapFailed) w1)
             | Some a \<Rightarrow>
                 let w2 = w1\<lparr>mappings := (mappings w1)(a \<mapsto> (name, msz))\<rparr>;
                     w3 = access (Addr a) d w2;
                     w4 = w3\<lparr>files := (files w3)(name :=
                            map_option
                              (\<lambda>f. f\<lparr>content := ht_init cfg (content f) capacity force_init\<rparr>)
                              (files w3 name))\<rparr>
                 in register_segment d msz (Addr a) w4)"

text \<open>
  Lines 96 to 117, for \<^verbatim>\<open>force_init == 0\<close>: a file long enough for a header is mapped and
  checked. The result is either the return of the function (through \<^verbatim>\<open>create_failed\<close>) or
  the capacity to go on with. \<open>f\<close> is the file as \<^verbatim>\<open>fstat\<close> and the header mapping show it.
\<close>

definition load_existing ::
  "config \<Rightarrow> open_env \<Rightarrow> string \<Rightarrow> int \<Rightarrow> backing_file \<Rightarrow> 64 word \<Rightarrow> world
     \<Rightarrow> (pyobj option \<times> world) + (64 word \<times> world)" where
  "load_existing cfg env name d f capacity w =
     (if unat (header_size cfg) \<le> st_size f then
        (case hdr_mmap_ret env of
           None \<Rightarrow>
             Inl (create_failed d MAP_FAILED (PyErr_Format (ShmhtError HeaderMmapFailed) w))
         | Some a \<Rightarrow>
             let w1 = w\<lparr>mappings := (mappings w)(a \<mapsto> (name, header_size cfg))\<rparr>;
                 w2 = access (Addr a) d w1
             in if ht_is_valid cfg (content f) then
                  if capacity \<noteq> 0 \<and> orig_capacity (content f) < capacity
                  then Inl (create_failed d (Addr a)
                              (PyErr_Format (ShmhtError SmallerCapacity) w2))
                  else Inr (orig_capacity (content f), snd (munmap (Addr a) w2))
                else Inr (capacity, snd (munmap (Addr a) w2)))
      else Inr (capacity, w))"

text \<open>
  \<^verbatim>\<open>shmht_open\<close> after \<^verbatim>\<open>PyArg_ParseTuple\<close>: \<open>i_capacity\<close> and \<open>force_init\<close> are the
  two C variables. \<^verbatim>\<open>open\<close> with \<^verbatim>\<open>O_CREAT\<close> creates a file that does not exist.
\<close>

definition shmht_open ::
  "config \<Rightarrow> open_env \<Rightarrow> string \<Rightarrow> 64 word \<Rightarrow> int \<Rightarrow> world \<Rightarrow> pyobj option \<times> world" where
  "shmht_open cfg env name i_capacity force_init w =
     (let d = open_ret env in
      if d < 0 then (None, PyErr_Format (ShmhtError OpenFailed) w)
      else
        let f = (case files w name of None \<Rightarrow> new_file | Some f \<Rightarrow> f);
            w1 = w\<lparr>files := (files w)(name \<mapsto> f), fdtab := (fdtab w)(d \<mapsto> name)\<rparr>;
            w2 = mylock d w1
        in if force_init = 0 then
             (case load_existing cfg env name d f i_capacity w2 of
                Inl r \<Rightarrow> r
              | Inr (capacity, w3) \<Rightarrow>
                  create_table cfg env name d (st_size f) capacity force_init w3)
           else create_table cfg env name d (st_size f) i_capacity force_init w2)"

text \<open>
  \<^verbatim>\<open>PyArg_ParseTuple\<close> with the format \<^verbatim>\<open>"s|ii"\<close>: each \<^verbatim>\<open>i\<close> converts a Python integer to a C
  \<^verbatim>\<open>int\<close> and raises \<^verbatim>\<open>OverflowError\<close> outside its range.
\<close>

definition parse_int :: "int \<Rightarrow> 32 word option" where
  "parse_int v = (if - (2 ^ 31) \<le> v \<and> v < 2 ^ 31 then Some (word_of_int v) else None)"



subsection \<open>The operations on a handle\<close>

text \<open>
  Each operation comes in two parts, as \<^verbatim>\<open>shmht_open\<close> does: first the body after
  \<^verbatim>\<open>PyArg_ParseTuple\<close>, where \<open>idx\<close> is the C \<^verbatim>\<open>int\<close> that the parser has stored, and then,
  at the end of this subsection, the function from its Python arguments.
\<close>

text \<open>The test at the head of every operation on a handle.\<close>

definition invalid_id :: "world \<Rightarrow> int \<Rightarrow> bool" where
  "invalid_id w idx = (idx < 0 \<or> max_ht_map_entries \<le> idx \<or> ht (ht_map w idx) = NULL)"

text \<open>
  \<^verbatim>\<open>shmht_close\<close> after \<^verbatim>\<open>PyArg_ParseTuple\<close> (line 178). \<^verbatim>\<open>ht_destroy\<close> works on the mapped
  table, and no lock is taken. A failing \<^verbatim>\<open>munmap\<close> sets the error indicator, but the
  \<^verbatim>\<open>return NULL\<close> after it is commented out.
\<close>

definition shmht_close :: "int \<Rightarrow> world \<Rightarrow> pyobj option \<times> world" where
  "shmht_close idx w =
     (if invalid_id w idx then (None, PyErr_Format (ShmhtError (InvalidHtId idx)) w)
      else
        let p = ht (ht_map w idx) in
        case table_at w p of
          None \<Rightarrow> (None, PyErr_Format Segfault w)
        | Some t \<Rightarrow>
            let (ref_cnt, t') = ht_destroy t;
                w1 = table_update p t' (access p (fd (ht_map w idx)) w);
                (unmapped, w2) = munmap p w1;
                w3 = (if unmapped then w2 else PyErr_Format (ShmhtError MunmapFailed) w2);
                w4 = sys_close (fd (ht_map w3 idx)) w3
            in (Some PyTrue, w4\<lparr>ht_map := (ht_map w4)(idx := zero_node)\<rparr>))"

text \<open>
  \<^verbatim>\<open>shmht_getval\<close> after \<^verbatim>\<open>PyArg_ParseTuple\<close> (line 212). On a hit the lock is released at
  line 230, and line 231 builds the string from \<^verbatim>\<open>value->str\<close> and \<^verbatim>\<open>value->size\<close>.
\<close>

definition shmht_getval :: "config \<Rightarrow> int \<Rightarrow> string \<Rightarrow> world \<Rightarrow> pyobj option \<times> world" where
  "shmht_getval cfg idx key w =
     (if invalid_id w idx then (None, PyErr_Format (ShmhtError (InvalidHtId idx)) w)
      else
        let d = fd (ht_map w idx);
            w1 = mylock d w;
            p = ht (ht_map w1 idx)
        in case table_at w1 p of
             None \<Rightarrow> (None, PyErr_Format Segfault w1)
           | Some t \<Rightarrow>
               let w2 = access p d w1 in
               (case ht_get cfg t key of
                  None \<Rightarrow> (Some PyNone, myunlock d w2)
                | Some i \<Rightarrow>
                    let w3 = myunlock d w2;
                        w4 = access p d w3
                    in (case table_at w4 p of
                          None \<Rightarrow> (None, PyErr_Format Segfault w4)
                        | Some t' \<Rightarrow> (Some (PyString (value_at t' i)), w4))))"

text \<open>\<^verbatim>\<open>shmht_setval\<close> after \<^verbatim>\<open>PyArg_ParseTuple\<close> (line 238).\<close>

definition shmht_setval ::
  "config \<Rightarrow> int \<Rightarrow> string \<Rightarrow> string \<Rightarrow> world \<Rightarrow> pyobj option \<times> world" where
  "shmht_setval cfg idx key val w =
     (if invalid_id w idx then (None, PyErr_Format (ShmhtError (InvalidHtId idx)) w)
      else
        let p = ht (ht_map w idx);
            d = fd (ht_map w idx);
            w1 = mylock d w
        in case table_at w1 p of
             None \<Rightarrow> (None, PyErr_Format Segfault w1)
           | Some t \<Rightarrow>
               let (result, t') = ht_set cfg t key val;
                   w2 = table_update p t' (access p d w1);
                   w3 = myunlock d w2
               in if \<not> result then (None, PyErr_Format (ShmhtError InsertFailed) w3)
                  else (Some PyTrue, w3))"

text \<open>\<^verbatim>\<open>shmht_remove\<close> after \<^verbatim>\<open>PyArg_ParseTuple\<close> (line 267).\<close>

definition shmht_remove :: "config \<Rightarrow> int \<Rightarrow> string \<Rightarrow> world \<Rightarrow> pyobj option \<times> world" where
  "shmht_remove cfg idx key w =
     (if invalid_id w idx then (None, PyErr_Format (ShmhtError (InvalidHtId idx)) w)
      else
        let p = ht (ht_map w idx);
            d = fd (ht_map w idx);
            w1 = mylock d w
        in case table_at w1 p of
             None \<Rightarrow> (None, PyErr_Format Segfault w1)
           | Some t \<Rightarrow>
               let (result, t') = ht_remove cfg t key;
                   w2 = table_update p t' (access p d w1);
                   w3 = myunlock d w2
               in if \<not> result then (Some PyFalse, w3) else (Some PyTrue, w3))"

text \<open>
  One round of the \<^verbatim>\<open>while\<close> loop of \<^verbatim>\<open>shmht_foreach\<close>: \<^verbatim>\<open>PyEval_CallObject\<close> calls the
  visitor with the key and the value. A visitor that raises leaves its exception in the
  error indicator; the source does not look at what the call returns. The call itself
  changes nothing else of the state: the visitor does not call the module again.
\<close>

definition call_visitor ::
  "(string \<Rightarrow> string \<Rightarrow> pyexc option) \<Rightarrow> string \<Rightarrow> string \<Rightarrow> world \<Rightarrow> world" where
  "call_visitor cb k v w =
     (let w1 = w\<lparr>trace := trace w @ [EvCall k v]\<rparr>
      in case cb k v of None \<Rightarrow> w1 | Some e \<Rightarrow> w1\<lparr>err := Some e\<rparr>)"

text \<open>
  The loop over the entries that are left: every \<^verbatim>\<open>ht_iter_next\<close> reads the mapped table,
  the last one to find that the scan is over.
\<close>

fun visit_all ::
  "(string \<Rightarrow> string \<Rightarrow> pyexc option) \<Rightarrow> ptr \<Rightarrow> int \<Rightarrow> (string \<times> string) list \<Rightarrow> world
     \<Rightarrow> world" where
  "visit_all cb p d [] w = access p d w"
| "visit_all cb p d ((k, v) # es) w = visit_all cb p d es (call_visitor cb k v (access p d w))"

text \<open>
  \<^verbatim>\<open>shmht_foreach\<close> after \<^verbatim>\<open>PyArg_ParseTuple\<close> (line 293). \<^verbatim>\<open>ht_get_iterator\<close> only
  allocates the cursor; the scan itself runs between \<^verbatim>\<open>mylock\<close> and \<^verbatim>\<open>myunlock\<close>, and the
  function ends with \<^verbatim>\<open>Py_RETURN_NONE\<close>.
\<close>

definition shmht_foreach :: "int \<Rightarrow> visitor \<Rightarrow> world \<Rightarrow> pyobj option \<times> world" where
  "shmht_foreach idx cb w =
     (if invalid_id w idx then (None, PyErr_Format (ShmhtError (InvalidHtId idx)) w)
      else
        case cb of
          NotCallable \<Rightarrow> (None, PyErr_Format TypeError w)
        | Callable f \<Rightarrow>
            let p = ht (ht_map w idx);
                d = fd (ht_map w idx);
                w1 = mylock d w
            in case table_at w1 p of
                 None \<Rightarrow> (None, PyErr_Format Segfault w1)
               | Some t \<Rightarrow>
                   let w2 = visit_all f p d (ht_entries (slots t)) w1
                   in (Some PyNone, myunlock d w2))"

text \<open>
  The operations from their Python arguments. The format of each begins with \<^verbatim>\<open>i\<close> (lines
  178, 212, 238, 267 and 293): the handle is converted to a C \<^verbatim>\<open>int\<close>, with \<^verbatim>\<open>OverflowError\<close>
  outside its range, and the function returns \<^verbatim>\<open>NULL\<close> before its body is reached. The
  arguments are converted from left to right. A key or a value has the format \<^verbatim>\<open>s#\<close> with
  an \<^verbatim>\<open>int\<close> for its size (\<^verbatim>\<open>PY_SSIZE_T_CLEAN\<close> is not defined): Python 2.7 raises
  \<^verbatim>\<open>OverflowError\<close> for a string of more than \<^verbatim>\<open>INT_MAX\<close> bytes. The visitor has the format
  \<^verbatim>\<open>O\<close>, which takes any object.
\<close>

definition size_fits :: "string \<Rightarrow> bool" where
  "size_fits s = (int (length s) \<le> 2 ^ 31 - 1)"

definition shmht_close_args :: "int \<Rightarrow> world \<Rightarrow> pyobj option \<times> world" where
  "shmht_close_args h w =
     (case parse_int h of
        None \<Rightarrow> (None, PyErr_Format OverflowError w)
      | Some idx \<Rightarrow> shmht_close (sint idx) w)"

definition shmht_getval_args ::
  "config \<Rightarrow> int \<Rightarrow> string \<Rightarrow> world \<Rightarrow> pyobj option \<times> world" where
  "shmht_getval_args cfg h key w =
     (case parse_int h of
        None \<Rightarrow> (None, PyErr_Format OverflowError w)
      | Some idx \<Rightarrow>
          if size_fits key then shmht_getval cfg (sint idx) key w
          else (None, PyErr_Format OverflowError w))"

definition shmht_setval_args ::
  "config \<Rightarrow> int \<Rightarrow> string \<Rightarrow> string \<Rightarrow> world \<Rightarrow> pyobj option \<times> world" where
  "shmht_setval_args cfg h key val w =
     (case parse_int h of
        None \<Rightarrow> (None, PyErr_Format OverflowError w)
      | Some idx \<Rightarrow>
          if size_fits key \<and> size_fits val then shmht_setval cfg (sint idx) key val w
          else (None, PyErr_Format OverflowError w))"

definition shmht_remove_args ::
  "config \<Rightarrow> int \<Rightarrow> string \<Rightarrow> world \<Rightarrow> pyobj option \<times> world" where
  "shmht_remove_args cfg h key w =
     (case parse_int h of
        None \<Rightarrow> (None, PyErr_Format OverflowError w)
      | Some idx \<Rightarrow>
          if size_fits key then shmht_remove cfg (sint idx) key w
          else (None, PyErr_Format OverflowError w))"

definition shmht_foreach_args :: "int \<Rightarrow> visitor \<Rightarrow> world \<Rightarrow> pyobj option \<times> world" where
  "shmht_foreach_args h cb w =
     (case parse_int h of
        None \<Rightarrow> (None, PyErr_Format OverflowError w)
      | Some idx \<Rightarrow> shmht_foreach (sint idx) cb w)"

section \<open>Reading the record of events\<close>

text \<open>
  A stretch of events is guarded when every touch of the mapped table in it happened with
  the lock held.
\<close>

fun guarded :: "event list \<Rightarrow> bool" where
  "guarded [] = True"
| "guarded (EvAccess p held # es) = (held \<and> guarded es)"
| "guarded (EvLock d # es) = guarded es"
| "guarded (EvUnlock d # es) = guarded es"
| "guarded (EvCall k v # es) = guarded es"

text \<open>
  What an operation adds to the record, from the state before to the state after, is
  guarded.
\<close>

definition under_lock :: "world \<Rightarrow> world \<Rightarrow> bool" where
  "under_lock w w' =
     (take (length (trace w)) (trace w') = trace w \<and>
      guarded (drop (length (trace w)) (trace w')))"

section \<open>Sample states\<close>

text \<open>
  A configuration, a table of capacity four that holds two entries, and a process that has
  the file \<^verbatim>\<open>t.db\<close> with this table open under handle 0.
\<close>

definition cfg0 :: config where
  "cfg0 = \<lparr>HT_MAGIC = 0x73686D68, header_size = 32, slot_size = 64, hash = length\<rparr>"

definition table0 :: hashtable where
  "table0 = \<lparr>magic = 0x73686D68, orig_capacity = 4, entry_count = 2,
     slots = [Empty, Occupied ''a'' ''1'', Occupied ''b'' ''2'', Empty]\<rparr>"

definition world0 :: world where
  "world0 = \<lparr>files = [''t.db'' \<mapsto> \<lparr>st_size = 288, content = table0\<rparr>],
     fdtab = [3 \<mapsto> ''t.db''],
     mappings = [7 \<mapsto> (''t.db'', 288)],
     flocked = {},
     ht_map = (\<lambda>i. zero_node)(0 := \<lparr>fd = 3, mem_size = 288, ht = Addr 7\<rparr>),
     ht_idx = 0,
     err = None,
     trace = []\<rparr>"

text \<open>
  The same process from its start: \<^verbatim>\<open>init_shmht\<close> has zeroed the registry, \<^verbatim>\<open>ht_idx\<close> is
  \<open>-1\<close>; it opens \<^verbatim>\<open>t.db\<close> with capacity four and sets two keys.
\<close>

definition world_init :: world where
  "world_init = \<lparr>files = Map.empty, fdtab = Map.empty, mappings = Map.empty, flocked = {},
     ht_map = (\<lambda>i. zero_node), ht_idx = - 1, err = None, trace = []\<rparr>"

definition env_first :: open_env where
  "env_first = \<lparr>open_ret = 3, hdr_mmap_ret = Some 6, lseek_ok = True, write_ok = True,
     mmap_ret = Some 7\<rparr>"

definition world_built :: world where
  "world_built =
     snd (shmht_setval cfg0 0 ''b'' ''2''
       (snd (shmht_setval cfg0 0 ''a'' ''1''
         (snd (shmht_open cfg0 env_first ''t.db'' 4 0 world_init)))))"

text \<open>System calls that all succeed, with a descriptor and addresses not in use.\<close>

definition env0 :: open_env where
  "env0 = \<lparr>open_ret = 5000, hdr_mmap_ret = Some 9000, lseek_ok = True, write_ok = True,
     mmap_ret = Some 9001\<rparr>"

text \<open>An \<^verbatim>\<open>open\<close> that fails, as for a path in a directory that does not exist.\<close>

definition env_enoent :: open_env where
  "env_enoent = \<lparr>open_ret = - 1, hdr_mmap_ret = None, lseek_ok = False, write_ok = False,
     mmap_ret = None\<rparr>"

text \<open>
  An \<^verbatim>\<open>open\<close> that succeeds and a \<^verbatim>\<open>mmap\<close> of the header that fails, as when the process
  has no address space left.
\<close>

definition env_enomem :: open_env where
  "env_enomem = \<lparr>open_ret = 5000, hdr_mmap_ret = None, lseek_ok = True, write_ok = True,
     mmap_ret = None\<rparr>"

text \<open>
  The sample process beside a file \<^verbatim>\<open>junk.db\<close> of a hundred bytes that is not a table: it
  is long enough for a header, and the header is not valid.
\<close>

definition junk_file :: backing_file where
  "junk_file = \<lparr>st_size = 100,
     content = \<lparr>magic = 0, orig_capacity = 0, entry_count = 0, slots = []\<rparr>\<rparr>"

definition world_junk :: world where
  "world_junk = world0\<lparr>files := (files world0)(''junk.db'' \<mapsto> junk_file)\<rparr>"

text \<open>
  A process that has opened \<^verbatim>\<open>t.db\<close> 2048 times, one after the other: every slot of the
  registry is taken, and \<^verbatim>\<open>ht_idx\<close> stands at the last one.
\<close>

definition world_full :: world where
  "world_full = \<lparr>files = [''t.db'' \<mapsto> \<lparr>st_size = 288, content = table0\<rparr>],
     fdtab = (\<lambda>d. if 3 \<le> d \<and> d < 2051 then Some ''t.db'' else None),
     mappings = (\<lambda>a. if a < 2048 then Some (''t.db'', 288) else None),
     flocked = {},
     ht_map = (\<lambda>i. if 0 \<le> i \<and> i < 2048
                     then \<lparr>fd = 3 + i, mem_size = 288, ht = Addr (nat i)\<rparr> else zero_node),
     ht_idx = 2047,
     err = None,
     trace = []\<rparr>"

section \<open>The search for a free slot of the registry\<close>

text \<open>
  As long as \<^verbatim>\<open>ht_idx\<close> is at least \<open>-1\<close>, which it is from its initial value on, C's
  remainder is the mathematical one.
\<close>

lemma smod_next:
  "-1 \<le> idx \<Longrightarrow> (idx + 1) smod max_ht_map_entries = (idx + 1) mod 2048"
  by (simp add: max_ht_map_entries_def smod_int_alt_def sgn_if)

lemma slot_search_window_full:
  "-1 \<le> idx \<Longrightarrow> n \<le> 1024 \<Longrightarrow>
   (\<forall>i. 1 \<le> i \<and> i \<le> int n \<longrightarrow> ht (hm ((idx + i) mod 2048)) \<noteq> NULL) \<Longrightarrow>
   snd (slot_search hm idx (2048 - 2 * int n)) = 2048"
proof (induction n arbitrary: idx)
  case 0
  then show ?case by (simp add: slot_search.simps max_ht_map_entries_def)
next
  case (Suc n)
  let ?idx' = "(idx + 1) mod 2048"
  have occ: "ht (hm ?idx') \<noteq> NULL" using Suc.prems(3) [rule_format, of 1] by simp
  have win: "\<forall>i. 1 \<le> i \<and> i \<le> int n \<longrightarrow> ht (hm ((?idx' + i) mod 2048)) \<noteq> NULL"
  proof (intro allI impI)
    fix i assume "1 \<le> i \<and> i \<le> int n"
    then have "ht (hm ((idx + (i + 1)) mod 2048)) \<noteq> NULL"
      using Suc.prems(3) [rule_format, of "i + 1"] by simp
    moreover have "(?idx' + i) mod 2048 = (idx + (i + 1)) mod 2048"
      by (simp add: mod_simps algebra_simps)
    ultimately show "ht (hm ((?idx' + i) mod 2048)) \<noteq> NULL" by simp
  qed
  have ih: "snd (slot_search hm ?idx' (2048 - 2 * int n)) = 2048"
    using Suc.IH [of ?idx'] Suc.prems(2) win by simp
  have lt: "2048 - 2 * int (Suc n) < max_ht_map_entries"
    by (simp add: max_ht_map_entries_def)
  have step: "slot_search hm idx (2048 - 2 * int (Suc n)) = slot_search hm ?idx' (2048 - 2 * int n)"
    using occ lt smod_next [OF Suc.prems(1)]
    by (subst slot_search.simps) (simp add: Let_def algebra_simps)
  show ?case using step ih by simp
qed

lemma slot_search_finds:
  "-1 \<le> idx \<Longrightarrow> 0 \<le> c \<Longrightarrow> int j + c < 1024 \<Longrightarrow>
   (\<forall>i. 1 \<le> i \<and> i \<le> int j \<longrightarrow> ht (hm ((idx + i) mod 2048)) \<noteq> NULL) \<Longrightarrow>
   ht (hm ((idx + int j + 1) mod 2048)) = NULL \<Longrightarrow>
   slot_search hm idx (2 * c) = ((idx + int j + 1) mod 2048, 2 * c + 2 * int j + 1)"
proof (induction j arbitrary: idx c)
  case 0
  have lt: "2 * c < max_ht_map_entries" using "0.prems" by (simp add: max_ht_map_entries_def)
  show ?case using "0.prems" lt smod_next [OF "0.prems"(1)]
    by (subst slot_search.simps) (simp add: Let_def)
next
  case (Suc j)
  let ?idx' = "(idx + 1) mod 2048"
  have occ: "ht (hm ?idx') \<noteq> NULL" using Suc.prems(4) [rule_format, of 1] by simp
  have win: "\<forall>i. 1 \<le> i \<and> i \<le> int j \<longrightarrow> ht (hm ((?idx' + i) mod 2048)) \<noteq> NULL"
  proof (intro allI impI)
    fix i assume "1 \<le> i \<and> i \<le> int j"
    then have "ht (hm ((idx + (i + 1)) mod 2048)) \<noteq> NULL"
      using Suc.prems(4) [rule_format, of "i + 1"] by simp
    moreover have "(?idx' + i) mod 2048 = (idx + (i + 1)) mod 2048"
      by (simp add: mod_simps algebra_simps)
    ultimately show "ht (hm ((?idx' + i) mod 2048)) \<noteq> NULL" by simp
  qed
  have "(?idx' + int j + 1) mod 2048 = (?idx' + (int j + 1)) mod 2048"
    by (simp add: add.assoc)
  also have "\<dots> = ((idx + 1) + (int j + 1)) mod 2048"
    by (rule mod_add_left_eq)
  also have "\<dots> = (idx + int (Suc j) + 1) mod 2048"
    by (simp add: algebra_simps)
  finally have eq: "(?idx' + int j + 1) mod 2048 = (idx + int (Suc j) + 1) mod 2048" .
  have free: "ht (hm ((?idx' + int j + 1) mod 2048)) = NULL"
    using Suc.prems(5) eq by simp
  have ih: "slot_search hm ?idx' (2 * (c + 1)) =
      ((?idx' + int j + 1) mod 2048, 2 * (c + 1) + 2 * int j + 1)"
    using Suc.IH [of ?idx' "c + 1"] Suc.prems(2,3) win free by simp
  have lt: "2 * c < max_ht_map_entries" using Suc.prems by (simp add: max_ht_map_entries_def)
  have step: "slot_search hm idx (2 * c) = slot_search hm ?idx' (2 * (c + 1))"
    using occ lt smod_next [OF Suc.prems(1)]
    by (subst slot_search.simps) (simp add: Let_def algebra_simps)
  show ?case using step ih eq by (simp add: algebra_simps)
qed

lemma slot_search_all_occupied:
  assumes "-1 \<le> idx" and "\<forall>i. 0 \<le> i \<and> i < 2048 \<longrightarrow> ht (hm i) \<noteq> NULL"
  shows "snd (slot_search hm idx 0) = 2048"
proof -
  have "\<forall>i. 1 \<le> i \<and> i \<le> int 1024 \<longrightarrow> ht (hm ((idx + i) mod 2048)) \<noteq> NULL"
    using assms(2) by simp
  from slot_search_window_full [OF assms(1) _ this] show ?thesis by simp
qed

lemma slot_search_next_free:
  assumes "-1 \<le> idx" and "ht (hm ((idx + 1) mod 2048)) = NULL"
  shows "slot_search hm idx 0 = ((idx + 1) mod 2048, 1)"
proof -
  have win: "\<forall>i. 1 \<le> i \<and> i \<le> int 0 \<longrightarrow> ht (hm ((idx + i) mod 2048)) \<noteq> NULL"
    by auto
  have free: "ht (hm ((idx + int 0 + 1) mod 2048)) = NULL"
    using assms(2) by simp
  have "slot_search hm idx (2 * 0) = ((idx + int 0 + 1) mod 2048, 2 * 0 + 2 * int 0 + 1)"
    by (rule slot_search_finds [OF assms(1) _ _ win free]) simp_all
  then show ?thesis by simp
qed

lemma register_segment_full:
  assumes "snd (slot_search (ht_map w) (ht_idx w) 0) = 2048"
  shows "register_segment d msz p w =
     create_failed d p (PyErr_Format (ShmhtError ExceededMaxEntries)
       (w\<lparr>ht_idx := fst (slot_search (ht_map w) (ht_idx w) 0)\<rparr>))"
  using assms by (simp add: register_segment_def split_beta Let_def max_ht_map_entries_def)

lemma register_segment_found:
  assumes "slot_search (ht_map w) (ht_idx w) 0 = (idx, count)" "count < 2048"
  shows "register_segment d msz p w =
     (Some (PyInt idx),
      myunlock d (w\<lparr>ht_idx := idx,
                    ht_map := (ht_map w)(idx := \<lparr>fd = d, mem_size = msz, ht = p\<rparr>)\<rparr>))"
  using assms by (simp add: register_segment_def Let_def max_ht_map_entries_def)

lemma create_failed_fields:
  "fst (create_failed d p w) = None"
  "err (snd (create_failed d p w)) = err w"
  "ht_map (snd (create_failed d p w)) = ht_map w"
  "ht_idx (snd (create_failed d p w)) = ht_idx w"
  "files (snd (create_failed d p w)) = files w"
  by (simp_all add: create_failed_def Let_def sys_close_def myunlock_def munmap_def
      split: ptr.splits)

section \<open>Operations on a handle that is not valid\<close>

lemma invalid_ops:
  assumes "invalid_id w idx"
  shows "shmht_close idx w = (None, w\<lparr>err := Some (ShmhtError (InvalidHtId idx))\<rparr>)"
    and "shmht_getval cfg idx key w = (None, w\<lparr>err := Some (ShmhtError (InvalidHtId idx))\<rparr>)"
    and "shmht_setval cfg idx key val w = (None, w\<lparr>err := Some (ShmhtError (InvalidHtId idx))\<rparr>)"
    and "shmht_remove cfg idx key w = (None, w\<lparr>err := Some (ShmhtError (InvalidHtId idx))\<rparr>)"
    and "shmht_foreach idx cb w = (None, w\<lparr>err := Some (ShmhtError (InvalidHtId idx))\<rparr>)"
  using assms
  by (simp_all add: shmht_close_def shmht_getval_def shmht_setval_def shmht_remove_def
      shmht_foreach_def PyErr_Format_def)

lemma close_clears_slot:
  assumes "fst (shmht_close idx w) = Some PyTrue"
  shows "invalid_id (snd (shmht_close idx w)) idx"
  using assms
  by (auto simp: shmht_close_def invalid_id_def zero_node_def Let_def PyErr_Format_def
      split: if_splits option.splits prod.splits)

lemma parse_int_in_range:
  "- (2 ^ 31) \<le> h \<Longrightarrow> h < 2 ^ 31 \<Longrightarrow> \<exists>i. parse_int h = Some i \<and> sint i = h"
  by (simp add: parse_int_def sint_sbintrunc' signed_take_bit_int_eq_self)

lemma parse_int_out_of_range:
  "h < - (2 ^ 31) \<or> 2 ^ 31 \<le> h \<Longrightarrow> parse_int h = None"
  by (auto simp: parse_int_def)

lemma args_in_range:
  assumes "- (2 ^ 31) \<le> h" and "h < 2 ^ 31" and "size_fits key" and "size_fits val"
  shows "shmht_close_args h w = shmht_close h w"
    and "shmht_getval_args cfg h key w = shmht_getval cfg h key w"
    and "shmht_setval_args cfg h key val w = shmht_setval cfg h key val w"
    and "shmht_remove_args cfg h key w = shmht_remove cfg h key w"
    and "shmht_foreach_args h cb w = shmht_foreach h cb w"
  using parse_int_in_range [OF assms(1,2)] assms(3,4)
  by (auto simp: shmht_close_args_def shmht_getval_args_def shmht_setval_args_def
      shmht_remove_args_def shmht_foreach_args_def)

lemma args_out_of_range:
  assumes "h < - (2 ^ 31) \<or> 2 ^ 31 \<le> h"
  shows "shmht_close_args h w = (None, w\<lparr>err := Some OverflowError\<rparr>)"
    and "shmht_getval_args cfg h key w = (None, w\<lparr>err := Some OverflowError\<rparr>)"
    and "shmht_setval_args cfg h key val w = (None, w\<lparr>err := Some OverflowError\<rparr>)"
    and "shmht_remove_args cfg h key w = (None, w\<lparr>err := Some OverflowError\<rparr>)"
    and "shmht_foreach_args h cb w = (None, w\<lparr>err := Some OverflowError\<rparr>)"
  using parse_int_out_of_range [OF assms]
  by (simp_all add: shmht_close_args_def shmht_getval_args_def shmht_setval_args_def
      shmht_remove_args_def shmht_foreach_args_def PyErr_Format_def)

lemma oversized_string:
  assumes "\<not> size_fits key \<or> \<not> size_fits val"
  shows "shmht_setval_args cfg h key val w = (None, w\<lparr>err := Some OverflowError\<rparr>)"
    and "\<not> size_fits key \<Longrightarrow>
           shmht_getval_args cfg h key w = (None, w\<lparr>err := Some OverflowError\<rparr>) \<and>
           shmht_remove_args cfg h key w = (None, w\<lparr>err := Some OverflowError\<rparr>)"
  using assms
  by (auto simp: shmht_getval_args_def shmht_setval_args_def shmht_remove_args_def
      PyErr_Format_def split: option.splits)

lemma close_args_success:
  assumes "shmht_close_args h w = (Some PyTrue, w')"
  shows "- (2 ^ 31) \<le> h \<and> h < 2 ^ 31 \<and> shmht_close h w = (Some PyTrue, w')"
proof -
  have r: "- (2 ^ 31) \<le> h \<and> h < 2 ^ 31"
  proof (rule ccontr)
    assume "\<not> ?thesis"
    then have "h < - (2 ^ 31) \<or> 2 ^ 31 \<le> h" by auto
    from args_out_of_range(1) [OF this, of w] assms show False by simp
  qed
  obtain i where "parse_int h = Some i" and "sint i = h"
    using parse_int_in_range r by blast
  then show ?thesis using r assms by (simp add: shmht_close_args_def)
qed

text \<open>
  Claim C5, as amended. The handle first goes through the conversion to a C \<^verbatim>\<open>int\<close>. A
  handle outside the range of an \<^verbatim>\<open>int\<close> makes every operation (close, get, set, remove,
  foreach) fail with \<^verbatim>\<open>OverflowError\<close>. A handle inside that range that is negative, beyond
  the bound of the registry or names an empty slot makes every operation fail with the
  invalid-handle error (the key and the value being strings whose sizes fit an \<^verbatim>\<open>int\<close>,
  which the same conversion requires). In both cases nothing changes but the error
  indicator: no file, mapping, descriptor, lock or registry slot is touched, and no event
  is recorded. After a close that succeeded, the same handle is invalid: a second close
  and every other operation on it fail with the invalid-handle error.
\<close>

theorem invalid_handle_rejected:
  assumes "size_fits key" and "size_fits val"
  shows
  "(h < - (2 ^ 31) \<or> 2 ^ 31 \<le> h \<longrightarrow>
      shmht_close_args h w = (None, w\<lparr>err := Some OverflowError\<rparr>) \<and>
      shmht_getval_args cfg h key w = (None, w\<lparr>err := Some OverflowError\<rparr>) \<and>
      shmht_setval_args cfg h key val w = (None, w\<lparr>err := Some OverflowError\<rparr>) \<and>
      shmht_remove_args cfg h key w = (None, w\<lparr>err := Some OverflowError\<rparr>) \<and>
      shmht_foreach_args h cb w = (None, w\<lparr>err := Some OverflowError\<rparr>)) \<and>
   (- (2 ^ 31) \<le> h \<and> h < 2 ^ 31 \<and>
    (h < 0 \<or> max_ht_map_entries \<le> h \<or> ht (ht_map w h) = NULL) \<longrightarrow>
      shmht_close_args h w = (None, w\<lparr>err := Some (ShmhtError (InvalidHtId h))\<rparr>) \<and>
      shmht_getval_args cfg h key w = (None, w\<lparr>err := Some (ShmhtError (InvalidHtId h))\<rparr>) \<and>
      shmht_setval_args cfg h key val w =
        (None, w\<lparr>err := Some (ShmhtError (InvalidHtId h))\<rparr>) \<and>
      shmht_remove_args cfg h key w = (None, w\<lparr>err := Some (ShmhtError (InvalidHtId h))\<rparr>) \<and>
      shmht_foreach_args h cb w = (None, w\<lparr>err := Some (ShmhtError (InvalidHtId h))\<rparr>)) \<and>
   (\<forall>w'. shmht_close_args h w = (Some PyTrue, w') \<longrightarrow>
      shmht_close_args h w' = (None, w'\<lparr>err := Some (ShmhtError (InvalidHtId h))\<rparr>) \<and>
      shmht_getval_args cfg h key w' =
        (None, w'\<lparr>err := Some (ShmhtError (InvalidHtId h))\<rparr>) \<and>
      shmht_setval_args cfg h key val w' =
        (None, w'\<lparr>err := Some (ShmhtError (InvalidHtId h))\<rparr>) \<and>
      shmht_remove_args cfg h key w' =
        (None, w'\<lparr>err := Some (ShmhtError (InvalidHtId h))\<rparr>) \<and>
      shmht_foreach_args h cb w' = (None, w'\<lparr>err := Some (ShmhtError (InvalidHtId h))\<rparr>))"
proof (intro conjI impI allI)
  assume "h < - (2 ^ 31) \<or> 2 ^ 31 \<le> h"
  then show "shmht_close_args h w = (None, w\<lparr>err := Some OverflowError\<rparr>)"
    and "shmht_getval_args cfg h key w = (None, w\<lparr>err := Some OverflowError\<rparr>)"
    and "shmht_setval_args cfg h key val w = (None, w\<lparr>err := Some OverflowError\<rparr>)"
    and "shmht_remove_args cfg h key w = (None, w\<lparr>err := Some OverflowError\<rparr>)"
    and "shmht_foreach_args h cb w = (None, w\<lparr>err := Some OverflowError\<rparr>)"
    by (rule args_out_of_range)+
next
  assume a: "- (2 ^ 31) \<le> h \<and> h < 2 ^ 31 \<and>
    (h < 0 \<or> max_ht_map_entries \<le> h \<or> ht (ht_map w h) = NULL)"
  then have inv: "invalid_id w h" by (simp add: invalid_id_def)
  from a have lo: "- (2 ^ 31) \<le> h" and hi: "h < 2 ^ 31" by simp_all
  show "shmht_close_args h w = (None, w\<lparr>err := Some (ShmhtError (InvalidHtId h))\<rparr>)"
    and "shmht_getval_args cfg h key w = (None, w\<lparr>err := Some (ShmhtError (InvalidHtId h))\<rparr>)"
    and "shmht_setval_args cfg h key val w =
      (None, w\<lparr>err := Some (ShmhtError (InvalidHtId h))\<rparr>)"
    and "shmht_remove_args cfg h key w = (None, w\<lparr>err := Some (ShmhtError (InvalidHtId h))\<rparr>)"
    and "shmht_foreach_args h cb w = (None, w\<lparr>err := Some (ShmhtError (InvalidHtId h))\<rparr>)"
    by (simp_all only: args_in_range [OF lo hi assms] invalid_ops [OF inv])
next
  fix w' assume c: "shmht_close_args h w = (Some PyTrue, w')"
  from close_args_success [OF c]
  have lo: "- (2 ^ 31) \<le> h" and hi: "h < 2 ^ 31" and c': "shmht_close h w = (Some PyTrue, w')"
    by simp_all
  from c' have inv: "invalid_id w' h" using close_clears_slot [of h w] by simp
  show "shmht_close_args h w' = (None, w'\<lparr>err := Some (ShmhtError (InvalidHtId h))\<rparr>)"
    and "shmht_getval_args cfg h key w' =
      (None, w'\<lparr>err := Some (ShmhtError (InvalidHtId h))\<rparr>)"
    and "shmht_setval_args cfg h key val w' =
      (None, w'\<lparr>err := Some (ShmhtError (InvalidHtId h))\<rparr>)"
    and "shmht_remove_args cfg h key w' =
      (None, w'\<lparr>err := Some (ShmhtError (InvalidHtId h))\<rparr>)"
    and "shmht_foreach_args h cb w' = (None, w'\<lparr>err := Some (ShmhtError (InvalidHtId h))\<rparr>)"
    by (simp_all only: args_in_range [OF lo hi assms] invalid_ops [OF inv])
qed

lemma close_world0: "fst (shmht_close 0 world0) = Some PyTrue"
  by (simp add: shmht_close_def world0_def invalid_id_def max_ht_map_entries_def table_at_def
      ht_destroy_def table_update_def access_def munmap_def sys_close_def Let_def)

lemma close_args_world0: "fst (shmht_close_args 0 world0) = Some PyTrue"
  using close_world0 by (simp add: shmht_close_args_def parse_int_def)

theorem invalid_handle_rejected_witness:
  "size_fits ''a'' \<and> size_fits ''1'' \<and>
   shmht_remove_args cfg0 (- 1) ''a'' world0 =
     (None, world0\<lparr>err := Some (ShmhtError (InvalidHtId (- 1)))\<rparr>) \<and>
   shmht_setval_args cfg0 2147483648 ''a'' ''1'' world0 =
     (None, world0\<lparr>err := Some OverflowError\<rparr>) \<and>
   fst (shmht_close_args 0 world0) = Some PyTrue \<and>
   fst (shmht_getval_args cfg0 0 ''a'' (snd (shmht_close_args 0 world0))) = None \<and>
   err (snd (shmht_getval_args cfg0 0 ''a'' (snd (shmht_close_args 0 world0)))) =
     Some (ShmhtError (InvalidHtId 0))"
proof -
  have k: "size_fits ''a''" and v: "size_fits ''1''"
    by (simp_all add: size_fits_def)
  have c: "shmht_close_args 0 world0 = (Some PyTrue, snd (shmht_close_args 0 world0))"
    using close_args_world0 by (simp add: prod_eq_iff)
  have neg: "- (2 ^ 31) \<le> (- 1 :: int) \<and> (- 1 :: int) < 2 ^ 31 \<and>
    ((- 1 :: int) < 0 \<or> max_ht_map_entries \<le> - 1 \<or> ht (ht_map world0 (- 1)) = NULL)"
    by simp
  have big: "(2147483648 :: int) < - (2 ^ 31) \<or> 2 ^ 31 \<le> (2147483648 :: int)"
    by simp
  from invalid_handle_rejected [OF k v, of "- 1" world0 cfg0 NotCallable] neg
  have r: "shmht_remove_args cfg0 (- 1) ''a'' world0 =
     (None, world0\<lparr>err := Some (ShmhtError (InvalidHtId (- 1)))\<rparr>)"
    by blast
  from invalid_handle_rejected [OF k v, of 2147483648 world0 cfg0 NotCallable] big
  have s: "shmht_setval_args cfg0 2147483648 ''a'' ''1'' world0 =
     (None, world0\<lparr>err := Some OverflowError\<rparr>)"
    by blast
  from invalid_handle_rejected [OF k v, of 0 world0 cfg0 NotCallable] c
  have g: "shmht_getval_args cfg0 0 ''a'' (snd (shmht_close_args 0 world0)) =
     (None, (snd (shmht_close_args 0 world0))\<lparr>err := Some (ShmhtError (InvalidHtId 0))\<rparr>)"
    by blast
  show ?thesis using k v r s close_args_world0 g by simp
qed

text \<open>
  The claim as it was stated fails for a handle that does not fit an \<^verbatim>\<open>int\<close>: it lies
  beyond the bound of the registry, and close fails with \<^verbatim>\<open>OverflowError\<close>, not with the
  invalid-handle error.
\<close>

theorem handle_beyond_int_overflows:
  "max_ht_map_entries \<le> 4294967296 \<and>
   fst (shmht_close_args 4294967296 world0) = None \<and>
   err (snd (shmht_close_args 4294967296 world0)) = Some OverflowError"
  by (simp add: shmht_close_args_def parse_int_def PyErr_Format_def max_ht_map_entries_def)

section \<open>Closing a handle\<close>

lemma world_full_fields:
  "files world_full ''t.db'' = Some \<lparr>st_size = 288, content = table0\<rparr>"
  "ht_idx world_full = 2047"
  "ht (ht_map world_full i) = NULL \<longleftrightarrow> \<not> (0 \<le> i \<and> i < 2048)"
  "ht (ht_map world_full 2047) = Addr 2047"
  "fd (ht_map world_full 2047) = 2050"
  "mappings world_full 2047 = Some (''t.db'', 288)"
  by (simp_all add: world_full_def zero_node_def)

lemma close_valid:
  assumes "0 \<le> idx" "idx < max_ht_map_entries" "ht (ht_map w idx) = Addr a"
    "mappings w a = Some (nm, len)" "files w nm = Some f"
  shows "shmht_close idx w =
     (Some PyTrue,
      w\<lparr>trace := trace w @ [EvAccess (Addr a) (fd (ht_map w idx) \<in> flocked w)],
        mappings := (mappings w)(a := None),
        fdtab := (fdtab w)(fd (ht_map w idx) := None),
        flocked := flocked w - {fd (ht_map w idx)},
        ht_map := (ht_map w)(idx := zero_node)\<rparr>)"
proof -
  have same: "(files w)(nm \<mapsto> f) = files w"
    using assms(5) by (rule map_upd_triv)
  show ?thesis
    using assms same
    by (simp add: shmht_close_def invalid_id_def table_at_def ht_destroy_def table_update_def
        access_def munmap_def sys_close_def Let_def)
qed

section \<open>The registry search stops half way\<close>

text \<open>
  Claim C2. Open is to fail with the registry-capacity error if and only if every slot of
  the registry is occupied. The code does not do that: the loop counts every round twice,
  so it looks at the 1024 slots after \<^verbatim>\<open>ht_idx\<close> only. In a process whose 2048 slots are all
  taken, close handle 2047: its slot is free again, \<^verbatim>\<open>ht_idx\<close> is still 2047, the search of
  the next open looks at slots 0 to 1023, all occupied, and the open fails with "exceeded
  max_ht_map_entries" although a slot is free.
\<close>

theorem registry_search_gives_up_early:
  "fst (shmht_close 2047 world_full) = Some PyTrue \<and>
   ht (ht_map (snd (shmht_close 2047 world_full)) 2047) = NULL \<and>
   fst (shmht_open cfg0 env0 ''new.db'' 4 0 (snd (shmht_close 2047 world_full))) = None \<and>
   err (snd (shmht_open cfg0 env0 ''new.db'' 4 0 (snd (shmht_close 2047 world_full)))) =
     Some (ShmhtError ExceededMaxEntries)"
proof -
  define w1 where "w1 = snd (shmht_close 2047 world_full)"
  have cl: "shmht_close 2047 world_full =
     (Some PyTrue,
      world_full\<lparr>trace := trace world_full @ [EvAccess (Addr 2047) (2050 \<in> flocked world_full)],
        mappings := (mappings world_full)(2047 := None),
        fdtab := (fdtab world_full)(2050 := None),
        flocked := flocked world_full - {2050},
        ht_map := (ht_map world_full)(2047 := zero_node)\<rparr>)"
    using close_valid [of 2047 world_full 2047 "''t.db''" 288 "\<lparr>st_size = 288, content = table0\<rparr>"]
    by (simp add: world_full_fields max_ht_map_entries_def)
  have hm: "ht_map w1 = (ht_map world_full)(2047 := zero_node)"
    and ix: "ht_idx w1 = 2047"
    and fl: "files w1 ''new.db'' = None"
    by (simp_all add: w1_def cl world_full_fields) (simp add: world_full_def)
  have free: "ht (ht_map w1 2047) = NULL"
    by (simp add: hm zero_node_def)
  have win: "\<forall>i. 1 \<le> i \<and> i \<le> int 1024 \<longrightarrow> ht (ht_map w1 ((2047 + i) mod 2048)) \<noteq> NULL"
  proof (intro allI impI)
    fix i :: int assume i: "1 \<le> i \<and> i \<le> int 1024"
    have "(2047 + i) mod 2048 = ((i - 1) + 2048) mod 2048"
      by (simp add: algebra_simps)
    also have "\<dots> = (i - 1) mod 2048"
      by (rule mod_add_self2)
    also have "\<dots> = i - 1"
      using i by (simp add: mod_pos_pos_trivial)
    finally have "(2047 + i) mod 2048 = i - 1" .
    with i show "ht (ht_map w1 ((2047 + i) mod 2048)) \<noteq> NULL"
      by (simp add: hm world_full_fields)
  qed
  have search: "snd (slot_search (ht_map w1) 2047 0) = 2048"
    using slot_search_window_full [of 2047 1024 "ht_map w1", OF _ _ win] by simp
  have op: "shmht_open cfg0 env0 ''new.db'' 4 0 w1 =
      register_segment 5000 288 (Addr 9001)
       (w1\<lparr>fdtab := (fdtab w1)(5000 \<mapsto> ''new.db''),
          flocked := insert 5000 (flocked w1),
          mappings := (mappings w1)(9001 \<mapsto> (''new.db'', 288)),
          trace := trace w1 @ [EvLock 5000, EvAccess (Addr 9001) True],
          files := (files w1)(''new.db'' \<mapsto>
             \<lparr>st_size = 288, content = ht_init cfg0 (content new_file) 4 0\<rparr>)\<rparr>)"
    by (simp add: shmht_open_def env0_def cfg0_def Let_def fl new_file_def
        load_existing_def mylock_def create_table_def ht_memory_size_def access_def)
  have res: "fst (shmht_open cfg0 env0 ''new.db'' 4 0 w1) = None"
    "err (snd (shmht_open cfg0 env0 ''new.db'' 4 0 w1)) = Some (ShmhtError ExceededMaxEntries)"
    unfolding op
    by (subst register_segment_full; simp add: ix search create_failed_fields PyErr_Format_def)+
  show ?thesis
    using cl free res by (simp add: w1_def)
qed

section \<open>What close leaves behind\<close>

lemma world0_fields:
  "ht (ht_map world0 0) = Addr 7"
  "fd (ht_map world0 0) = 3"
  "mappings world0 7 = Some (''t.db'', 288)"
  "files world0 ''t.db'' = Some \<lparr>st_size = 288, content = table0\<rparr>"
  "flocked world0 = {}"
  "trace world0 = []"
  "err world0 = None"
  by (simp_all add: world0_def)

text \<open>
  Claim C6. For every valid handle (its slot holds the address of a live mapping of a file
  that exists, which is what open stores there), close unmaps the segment, closes its
  descriptor, clears that slot of the registry and no other, and returns success. No file
  is deleted and no file changes: the header and the slots of the table are as they were.
\<close>

theorem close_detaches_only:
  assumes "0 \<le> idx" and "idx < max_ht_map_entries"
    and "ht (ht_map w idx) = Addr a"
    and "mappings w a = Some (nm, len)"
    and "files w nm = Some f"
  shows "fst (shmht_close idx w) = Some PyTrue \<and>
         mappings (snd (shmht_close idx w)) = (mappings w)(a := None) \<and>
         fdtab (snd (shmht_close idx w)) = (fdtab w)(fd (ht_map w idx) := None) \<and>
         ht_map (snd (shmht_close idx w)) = (ht_map w)(idx := zero_node) \<and>
         ht_idx (snd (shmht_close idx w)) = ht_idx w \<and>
         files (snd (shmht_close idx w)) = files w \<and>
         err (snd (shmht_close idx w)) = err w"
  by (simp add: close_valid [OF assms])

theorem close_detaches_only_witness:
  "fst (shmht_close 0 world0) = Some PyTrue \<and>
   mappings (snd (shmht_close 0 world0)) 7 = None \<and>
   fdtab (snd (shmht_close 0 world0)) 3 = None \<and>
   ht_map (snd (shmht_close 0 world0)) 0 = zero_node \<and>
   files (snd (shmht_close 0 world0)) ''t.db'' = Some \<lparr>st_size = 288, content = table0\<rparr>"
  using close_detaches_only [of 0 world0 7 "''t.db''" 288 "\<lparr>st_size = 288, content = table0\<rparr>"]
  by (simp add: world0_fields max_ht_map_entries_def)

section \<open>The order of lock and access\<close>

text \<open>
  Claim C9. In get, on a hit, the lock is released first and the value is copied out of
  the mapped table afterwards: the events of the call are the lock, the lookup with the
  lock held, the unlock, and then the read of the value, at which moment the process no
  longer holds the lock.
\<close>

theorem getval_copies_after_unlock:
  assumes "0 \<le> idx" and "idx < max_ht_map_entries"
    and "ht (ht_map w idx) = Addr a"
    and "mappings w a = Some (nm, len)"
    and "files w nm = Some f"
    and "ht_get cfg (content f) key = Some i"
  shows "fst (shmht_getval cfg idx key w) = Some (PyString (value_at (content f) i)) \<and>
         trace (snd (shmht_getval cfg idx key w)) =
           trace w @ [EvLock (fd (ht_map w idx)), EvAccess (Addr a) True,
                      EvUnlock (fd (ht_map w idx)), EvAccess (Addr a) False] \<and>
         fd (ht_map w idx) \<notin> flocked (snd (shmht_getval cfg idx key w))"
  using assms
  by (simp add: shmht_getval_def invalid_id_def table_at_def mylock_def myunlock_def access_def
      Let_def)

lemma get_a_table0: "ht_get cfg0 table0 ''a'' = Some 1"
  by (simp add: ht_get_def probe_seq_def cfg0_def table0_def Let_def upt_rec)

theorem getval_copies_after_unlock_witness:
  "fst (shmht_getval cfg0 0 ''a'' world0) = Some (PyString ''1'') \<and>
   trace (snd (shmht_getval cfg0 0 ''a'' world0)) =
     [EvLock 3, EvAccess (Addr 7) True, EvUnlock 3, EvAccess (Addr 7) False] \<and>
   3 \<notin> flocked (snd (shmht_getval cfg0 0 ''a'' world0))"
  using getval_copies_after_unlock [of 0 world0 7 "''t.db''" 288
      "\<lparr>st_size = 288, content = table0\<rparr>" cfg0 "''a''" 1]
  by (simp add: world0_fields max_ht_map_entries_def get_a_table0)
     (simp add: value_at_def table0_def)

lemma get_b_table0: "ht_get cfg0 table0 ''b'' = Some 2"
  by (simp add: ht_get_def probe_seq_def cfg0_def table0_def Let_def upt_rec)

text \<open>
  Claim C4. Every operation is to touch the mapped table only while it holds the lock.
  Get does not: with handle 0 open on the sample table, looking up the key \<^verbatim>\<open>b\<close> returns its
  value, and the last touch of the mapping in the record of the call comes after the
  unlock, without the lock.
\<close>

theorem getval_touches_mapping_unlocked:
  "fst (shmht_getval cfg0 0 ''b'' world0) = Some (PyString ''2'') \<and>
   trace (snd (shmht_getval cfg0 0 ''b'' world0)) =
     [EvLock 3, EvAccess (Addr 7) True, EvUnlock 3, EvAccess (Addr 7) False]"
  by (simp add: shmht_getval_def invalid_id_def max_ht_map_entries_def world0_fields table_at_def
      get_b_table0 mylock_def myunlock_def access_def Let_def)
     (simp add: value_at_def table0_def)

section \<open>A visitor that raises\<close>

text \<open>
  Claim C3. An exception that the visitor raises is to reach the caller of foreach. In
  the code it does not: the result of \<^verbatim>\<open>PyEval_CallObject\<close> is dropped. With a visitor that
  raises on the key \<^verbatim>\<open>a\<close>, foreach on the sample table still visits \<^verbatim>\<open>b\<close>, releases the lock
  and returns \<^verbatim>\<open>None\<close>, with the exception left in the error indicator.
\<close>

theorem foreach_returns_none_when_visitor_raises:
  "fst (shmht_foreach 0 (Callable (\<lambda>k v. if k = ''a'' then Some (Raised ''boom'') else None))
          world0) = Some PyNone \<and>
   err (snd (shmht_foreach 0
          (Callable (\<lambda>k v. if k = ''a'' then Some (Raised ''boom'') else None)) world0)) =
     Some (Raised ''boom'') \<and>
   trace (snd (shmht_foreach 0
          (Callable (\<lambda>k v. if k = ''a'' then Some (Raised ''boom'') else None)) world0)) =
     [EvLock 3, EvAccess (Addr 7) True, EvCall ''a'' ''1'', EvAccess (Addr 7) True,
      EvCall ''b'' ''2'', EvAccess (Addr 7) True, EvUnlock 3] \<and>
   3 \<notin> flocked (snd (shmht_foreach 0
          (Callable (\<lambda>k v. if k = ''a'' then Some (Raised ''boom'') else None)) world0))"
  by (simp add: shmht_foreach_def invalid_id_def max_ht_map_entries_def world0_def table_at_def
      table0_def mylock_def myunlock_def access_def call_visitor_def Let_def)

section \<open>Opening a segment\<close>

lemma register_segment_cases:
  "register_segment d msz p w =
     (if max_ht_map_entries \<le> snd (slot_search (ht_map w) (ht_idx w) 0)
      then create_failed d p (PyErr_Format (ShmhtError ExceededMaxEntries)
             (w\<lparr>ht_idx := fst (slot_search (ht_map w) (ht_idx w) 0)\<rparr>))
      else (Some (PyInt (fst (slot_search (ht_map w) (ht_idx w) 0))),
            myunlock d
              (w\<lparr>ht_idx := fst (slot_search (ht_map w) (ht_idx w) 0),
                 ht_map := (ht_map w)(fst (slot_search (ht_map w) (ht_idx w) 0) :=
                   \<lparr>fd = d, mem_size = msz, ht = p\<rparr>)\<rparr>)))"
  by (simp add: register_segment_def split_beta Let_def)

lemma open_noforce_valid:
  assumes "0 \<le> open_ret env" and "files w name = Some f"
    and "unat (header_size cfg) \<le> st_size f" and "hdr_mmap_ret env = Some a"
    and "ht_is_valid cfg (content f)"
  shows "shmht_open cfg env name req 0 w =
     (if req \<noteq> 0 \<and> orig_capacity (content f) < req
      then create_failed (open_ret env) (Addr a)
             (PyErr_Format (ShmhtError SmallerCapacity)
                (access (Addr a) (open_ret env)
                   ((mylock (open_ret env) (w\<lparr>fdtab := (fdtab w)(open_ret env \<mapsto> name)\<rparr>))
                      \<lparr>mappings := (mappings w)(a \<mapsto> (name, header_size cfg))\<rparr>)))
      else create_table cfg env name (open_ret env) (st_size f) (orig_capacity (content f)) 0
             (snd (munmap (Addr a)
                (access (Addr a) (open_ret env)
                   ((mylock (open_ret env) (w\<lparr>fdtab := (fdtab w)(open_ret env \<mapsto> name)\<rparr>))
                      \<lparr>mappings := (mappings w)(a \<mapsto> (name, header_size cfg))\<rparr>)))))"
proof -
  have same: "(files w)(name \<mapsto> f) = files w"
    using assms(2) by (rule map_upd_triv)
  show ?thesis
    using assms same
    by (simp add: shmht_open_def load_existing_def Let_def mylock_def)
qed

lemma create_table_succeeds_iff:
  assumes "capacity \<noteq> 0"
  shows "fst (create_table cfg env name d st capacity fi w) \<noteq> None \<longleftrightarrow>
     (st < unat (ht_memory_size cfg capacity) \<longrightarrow> lseek_ok env \<and> write_ok env) \<and>
     mmap_ret env \<noteq> None \<and>
     snd (slot_search (ht_map w) (ht_idx w) 0) < max_ht_map_entries"
  using assms
  by (auto simp: create_table_def Let_def create_failed_fields register_segment_cases access_def
      split: option.splits)

lemma create_table_error:
  assumes "capacity \<noteq> 0" and "fst (create_table cfg env name d st capacity fi w) = None"
  shows "err (snd (create_table cfg env name d st capacity fi w)) \<in>
     {Some (ShmhtError LseekFailed), Some (ShmhtError WriteFailed),
      Some (ShmhtError MmapFailed), Some (ShmhtError ExceededMaxEntries)}"
  using assms
  by (auto simp: create_table_def Let_def create_failed_fields register_segment_cases access_def
      PyErr_Format_def split: option.splits if_splits)

lemma create_table_success:
  assumes "capacity \<noteq> 0" and "fst (create_table cfg env name d st capacity fi w) = Some v"
  shows "\<exists>b. mmap_ret env = Some b \<and>
     v = PyInt (fst (slot_search (ht_map w) (ht_idx w) 0)) \<and>
     ht_map (snd (create_table cfg env name d st capacity fi w))
        (fst (slot_search (ht_map w) (ht_idx w) 0)) =
       \<lparr>fd = d, mem_size = ht_memory_size cfg capacity, ht = Addr b\<rparr> \<and>
     files (snd (create_table cfg env name d st capacity fi w)) name =
       map_option
         (\<lambda>f. (if st < unat (ht_memory_size cfg capacity)
               then f\<lparr>st_size := unat (ht_memory_size cfg capacity)\<rparr> else f)
              \<lparr>content := ht_init cfg (content f) capacity fi\<rparr>)
         (files w name)"
  using assms
  by (auto simp: create_table_def Let_def create_failed_fields register_segment_cases access_def
      myunlock_def option.map_comp o_def split: option.splits if_splits)

lemma create_table_registry_full:
  assumes "capacity \<noteq> 0"
    and "st < unat (ht_memory_size cfg capacity) \<longrightarrow> lseek_ok env \<and> write_ok env"
    and "mmap_ret env = Some b"
    and "snd (slot_search (ht_map w) (ht_idx w) 0) = 2048"
  shows "fst (create_table cfg env name d st capacity fi w) = None"
    and "err (snd (create_table cfg env name d st capacity fi w)) =
           Some (ShmhtError ExceededMaxEntries)"
    and "files (snd (create_table cfg env name d st capacity fi w)) name =
           map_option
             (\<lambda>f. (if st < unat (ht_memory_size cfg capacity)
                   then f\<lparr>st_size := unat (ht_memory_size cfg capacity)\<rparr> else f)
                  \<lparr>content := ht_init cfg (content f) capacity fi\<rparr>)
             (files w name)"
  using assms
  by (auto simp: create_table_def Let_def create_failed_fields register_segment_cases access_def
      PyErr_Format_def max_ht_map_entries_def option.map_comp o_def)

lemma world_full_search: "snd (slot_search (ht_map world_full) (ht_idx world_full) 0) = 2048"
proof -
  have "snd (slot_search (ht_map world_full) 2047 0) = 2048"
    by (rule slot_search_all_occupied) (simp_all add: world_full_fields)
  then show ?thesis by (simp add: world_full_fields)
qed

lemma smaller_capacity_result:
  "fst (create_failed d p (PyErr_Format e w)) = None"
  "err (snd (create_failed d p (PyErr_Format e w))) = Some e"
  by (simp_all add: create_failed_fields PyErr_Format_def)

lemma env0_fields:
  "open_ret env0 = 5000" "hdr_mmap_ret env0 = Some 9000" "lseek_ok env0" "write_ok env0"
  "mmap_ret env0 = Some 9001"
  by (simp_all add: env0_def)

lemma table0_valid: "ht_is_valid cfg0 table0"
  by (simp add: ht_is_valid_def cfg0_def table0_def)

lemma world0_search: "slot_search (ht_map world0) (ht_idx world0) 0 = (1, 1)"
proof -
  have "slot_search (ht_map world0) 0 0 = ((0 + 1) mod 2048, 1)"
    by (rule slot_search_next_free) (simp_all add: world0_def zero_node_def)
  then show ?thesis by (simp add: world0_def)
qed

lemma open_creation_path:
  assumes opened: "0 \<le> open_ret env"
    and f: "f = (case files w name of None \<Rightarrow> new_file | Some g \<Rightarrow> g)"
    and creating: "force_init \<noteq> 0 \<or> st_size f < unat (header_size cfg) \<or>
        (hdr_mmap_ret env \<noteq> None \<and> \<not> ht_is_valid cfg (content f))"
  shows "\<exists>W. shmht_open cfg env name capacity force_init w =
           create_table cfg env name (open_ret env) (st_size f) capacity force_init W \<and>
         ht_map W = ht_map w \<and> ht_idx W = ht_idx w \<and> err W = err w \<and>
         files W = (files w)(name \<mapsto> f) \<and>
         fdtab W = (fdtab w)(open_ret env \<mapsto> name) \<and>
         flocked W = insert (open_ret env) (flocked w) \<and>
         dom (mappings W) \<subseteq> dom (mappings w)"
proof (cases "force_init = 0 \<and> unat (header_size cfg) \<le> st_size f")
  case False
  let ?W = "mylock (open_ret env)
      (w\<lparr>files := (files w)(name \<mapsto> f), fdtab := (fdtab w)(open_ret env \<mapsto> name)\<rparr>)"
  have "shmht_open cfg env name capacity force_init w =
      create_table cfg env name (open_ret env) (st_size f) capacity force_init ?W"
    using False opened f by (auto simp: shmht_open_def load_existing_def Let_def)
  moreover have "ht_map ?W = ht_map w \<and> ht_idx ?W = ht_idx w \<and> err ?W = err w \<and>
      files ?W = (files w)(name \<mapsto> f) \<and> fdtab ?W = (fdtab w)(open_ret env \<mapsto> name) \<and>
      flocked ?W = insert (open_ret env) (flocked w) \<and>
      dom (mappings ?W) \<subseteq> dom (mappings w)"
    by (simp add: mylock_def)
  ultimately show ?thesis by blast
next
  case True
  then obtain a where a: "hdr_mmap_ret env = Some a" and inv: "\<not> ht_is_valid cfg (content f)"
    using creating by auto
  let ?W0 = "mylock (open_ret env)
      (w\<lparr>files := (files w)(name \<mapsto> f), fdtab := (fdtab w)(open_ret env \<mapsto> name)\<rparr>)"
  let ?W = "snd (munmap (Addr a) (access (Addr a) (open_ret env)
      (?W0\<lparr>mappings := (mappings ?W0)(a \<mapsto> (name, header_size cfg))\<rparr>)))"
  have "shmht_open cfg env name capacity force_init w =
      create_table cfg env name (open_ret env) (st_size f) capacity force_init ?W"
    using True opened f a inv by (auto simp: shmht_open_def load_existing_def Let_def)
  moreover have "ht_map ?W = ht_map w \<and> ht_idx ?W = ht_idx w \<and> err ?W = err w \<and>
      files ?W = (files w)(name \<mapsto> f) \<and> fdtab ?W = (fdtab w)(open_ret env \<mapsto> name) \<and>
      flocked ?W = insert (open_ret env) (flocked w) \<and>
      dom (mappings ?W) \<subseteq> dom (mappings w)"
    by (auto simp: mylock_def munmap_def access_def)
  ultimately show ?thesis by blast
qed

subsection \<open>A file that holds a valid table\<close>

text \<open>
  Claim C1, as amended. Take an open call with \<^verbatim>\<open>force_init\<close> zero on a file that holds a
  valid header, the file opened and the header mapped. If the requested capacity is not
  zero and exceeds the stored one, open fails with the capacity-mismatch error. Otherwise
  the requested capacity is ignored (the call does what it does when asked for the stored
  capacity), and open succeeds exactly when the file can be brought to the length the
  stored capacity needs, the full mapping is obtained and the registry search finds a
  slot; then the segment registered has the size of the stored capacity, and the table in
  the file is the one that was there. When it fails, the error is that of \<^verbatim>\<open>lseek\<close>,
  \<^verbatim>\<open>write\<close>, \<^verbatim>\<open>mmap\<close> or the registry.
\<close>

theorem open_existing_table:
  assumes opened: "0 \<le> open_ret env"
    and exists: "files w name = Some f"
    and long: "unat (header_size cfg) \<le> st_size f"
    and hdr: "hdr_mmap_ret env = Some a"
    and valid: "ht_is_valid cfg (content f)"
  shows "(req \<noteq> 0 \<and> orig_capacity (content f) < req \<longrightarrow>
           fst (shmht_open cfg env name req 0 w) = None \<and>
           err (snd (shmht_open cfg env name req 0 w)) = Some (ShmhtError SmallerCapacity)) \<and>
         (\<not> (req \<noteq> 0 \<and> orig_capacity (content f) < req) \<longrightarrow>
           shmht_open cfg env name req 0 w =
             shmht_open cfg env name (orig_capacity (content f)) 0 w \<and>
           (fst (shmht_open cfg env name req 0 w) \<noteq> None \<longleftrightarrow>
              (st_size f < unat (ht_memory_size cfg (orig_capacity (content f))) \<longrightarrow>
                 lseek_ok env \<and> write_ok env) \<and>
              mmap_ret env \<noteq> None \<and>
              snd (slot_search (ht_map w) (ht_idx w) 0) < max_ht_map_entries) \<and>
           (\<forall>v. fst (shmht_open cfg env name req 0 w) = Some v \<longrightarrow>
              v = PyInt (fst (slot_search (ht_map w) (ht_idx w) 0)) \<and>
              mem_size (ht_map (snd (shmht_open cfg env name req 0 w))
                          (fst (slot_search (ht_map w) (ht_idx w) 0))) =
                ht_memory_size cfg (orig_capacity (content f)) \<and>
              map_option content (files (snd (shmht_open cfg env name req 0 w)) name) =
                Some (content f)) \<and>
           (fst (shmht_open cfg env name req 0 w) = None \<longrightarrow>
              err (snd (shmht_open cfg env name req 0 w)) \<in>
                {Some (ShmhtError LseekFailed), Some (ShmhtError WriteFailed),
                 Some (ShmhtError MmapFailed), Some (ShmhtError ExceededMaxEntries)}))"
proof -
  let ?c = "orig_capacity (content f)"
  let ?W = "snd (munmap (Addr a)
                (access (Addr a) (open_ret env)
                   ((mylock (open_ret env) (w\<lparr>fdtab := (fdtab w)(open_ret env \<mapsto> name)\<rparr>))
                      \<lparr>mappings := (mappings w)(a \<mapsto> (name, header_size cfg))\<rparr>)))"
  note unf = open_noforce_valid [OF opened exists long hdr valid]
  have c0: "?c \<noteq> 0"
    using valid by (auto simp: ht_is_valid_def)
  have W: "ht_map ?W = ht_map w" "ht_idx ?W = ht_idx w" "files ?W = files w"
    by (simp_all add: munmap_def access_def mylock_def)
  have keep: "ht_init cfg (content f) ?c 0 = content f"
    using valid by (simp add: ht_init_def)
  show ?thesis
  proof (intro conjI impI)
    assume big: "req \<noteq> 0 \<and> ?c < req"
    show "fst (shmht_open cfg env name req 0 w) = None"
      and "err (snd (shmht_open cfg env name req 0 w)) = Some (ShmhtError SmallerCapacity)"
      using big by (simp_all add: unf smaller_capacity_result)
  next
    assume fits: "\<not> (req \<noteq> 0 \<and> ?c < req)"
    have r: "shmht_open cfg env name req 0 w =
        create_table cfg env name (open_ret env) (st_size f) ?c 0 ?W"
      using fits by (auto simp add: unf)
    have r': "shmht_open cfg env name ?c 0 w =
        create_table cfg env name (open_ret env) (st_size f) ?c 0 ?W"
      by (simp add: open_noforce_valid [OF opened exists long hdr valid])
    show "shmht_open cfg env name req 0 w = shmht_open cfg env name ?c 0 w"
      by (simp add: r r')
    show "fst (shmht_open cfg env name req 0 w) \<noteq> None \<longleftrightarrow>
        (st_size f < unat (ht_memory_size cfg ?c) \<longrightarrow> lseek_ok env \<and> write_ok env) \<and>
        mmap_ret env \<noteq> None \<and>
        snd (slot_search (ht_map w) (ht_idx w) 0) < max_ht_map_entries"
      unfolding r using create_table_succeeds_iff [OF c0, of cfg env name "open_ret env" "st_size f" 0 ?W]
      by (simp only: W)
    show "\<forall>v. fst (shmht_open cfg env name req 0 w) = Some v \<longrightarrow>
        v = PyInt (fst (slot_search (ht_map w) (ht_idx w) 0)) \<and>
        mem_size (ht_map (snd (shmht_open cfg env name req 0 w))
                    (fst (slot_search (ht_map w) (ht_idx w) 0))) =
          ht_memory_size cfg ?c \<and>
        map_option content (files (snd (shmht_open cfg env name req 0 w)) name) =
          Some (content f)"
    proof (intro allI impI)
      fix v assume "fst (shmht_open cfg env name req 0 w) = Some v"
      then have "fst (create_table cfg env name (open_ret env) (st_size f) ?c 0 ?W) = Some v"
        by (simp add: r)
      from create_table_success [OF c0 this]
      show "v = PyInt (fst (slot_search (ht_map w) (ht_idx w) 0)) \<and>
        mem_size (ht_map (snd (shmht_open cfg env name req 0 w))
                    (fst (slot_search (ht_map w) (ht_idx w) 0))) =
          ht_memory_size cfg ?c \<and>
        map_option content (files (snd (shmht_open cfg env name req 0 w)) name) =
          Some (content f)"
        unfolding r by (auto simp: W exists keep)
    qed
    show "err (snd (shmht_open cfg env name req 0 w)) \<in>
        {Some (ShmhtError LseekFailed), Some (ShmhtError WriteFailed),
         Some (ShmhtError MmapFailed), Some (ShmhtError ExceededMaxEntries)}"
      if "fst (shmht_open cfg env name req 0 w) = None"
      using that create_table_error [OF c0, of cfg env name "open_ret env" "st_size f" 0 ?W]
      by (simp add: r)
  qed
qed

theorem open_existing_table_witness:
  "fst (shmht_open cfg0 env0 ''t.db'' 5 0 world0) = None \<and>
   err (snd (shmht_open cfg0 env0 ''t.db'' 5 0 world0)) = Some (ShmhtError SmallerCapacity) \<and>
   fst (shmht_open cfg0 env0 ''t.db'' 3 0 world0) = Some (PyInt 1) \<and>
   mem_size (ht_map (snd (shmht_open cfg0 env0 ''t.db'' 3 0 world0)) 1) = 288 \<and>
   map_option content (files (snd (shmht_open cfg0 env0 ''t.db'' 3 0 world0)) ''t.db'') =
     Some table0"
proof -
  let ?f = "\<lparr>st_size = 288, content = table0\<rparr>"
  have h1: "0 \<le> open_ret env0" by (simp add: env0_def)
  have h2: "files world0 ''t.db'' = Some ?f" by (simp add: world0_fields)
  have h3: "unat (header_size cfg0) \<le> st_size ?f" by (simp add: cfg0_def)
  have h4: "hdr_mmap_ret env0 = Some 9000" by (simp add: env0_def)
  have h5: "ht_is_valid cfg0 (content ?f)" by (simp add: table0_valid)
  have cap: "orig_capacity table0 = 4" by (simp add: table0_def)
  have msz: "ht_memory_size cfg0 4 = 288" by (simp add: ht_memory_size_def cfg0_def)
  note big = open_existing_table [OF h1 h2 h3 h4 h5, of 5]
  note fit = open_existing_table [OF h1 h2 h3 h4 h5, of 3]
  have a: "fst (shmht_open cfg0 env0 ''t.db'' 5 0 world0) = None \<and>
      err (snd (shmht_open cfg0 env0 ''t.db'' 5 0 world0)) = Some (ShmhtError SmallerCapacity)"
    using big by (simp add: cap)
  have ok: "fst (shmht_open cfg0 env0 ''t.db'' 3 0 world0) \<noteq> None"
    using fit by (auto simp add: cap msz world0_search env0_fields max_ht_map_entries_def)
  then obtain v where v: "fst (shmht_open cfg0 env0 ''t.db'' 3 0 world0) = Some v"
    by blast
  have b: "v = PyInt 1 \<and>
      mem_size (ht_map (snd (shmht_open cfg0 env0 ''t.db'' 3 0 world0)) 1) = 288 \<and>
      map_option content (files (snd (shmht_open cfg0 env0 ''t.db'' 3 0 world0)) ''t.db'') =
        Some table0"
    using fit v by (auto simp add: cap msz world0_search)
  show ?thesis using a v b by simp
qed

text \<open>
  The claim as it was stated fails: in a process whose registry is full, open without
  \<^verbatim>\<open>force_init\<close> and without a capacity on a file with a valid table does not succeed.
\<close>

theorem open_valid_file_fails_on_full_registry:
  "files world_full ''t.db'' = Some \<lparr>st_size = 288, content = table0\<rparr> \<and>
   ht_is_valid cfg0 table0 \<and>
   fst (shmht_open cfg0 env0 ''t.db'' 0 0 world_full) = None \<and>
   err (snd (shmht_open cfg0 env0 ''t.db'' 0 0 world_full)) =
     Some (ShmhtError ExceededMaxEntries)"
proof -
  let ?f = "\<lparr>st_size = 288, content = table0\<rparr>"
  let ?W = "snd (munmap (Addr 9000)
                (access (Addr 9000) 5000
                   ((mylock 5000 (world_full\<lparr>fdtab := (fdtab world_full)(5000 \<mapsto> ''t.db'')\<rparr>))
                      \<lparr>mappings := (mappings world_full)(9000 \<mapsto> (''t.db'', 32))\<rparr>)))"
  have h1: "0 \<le> open_ret env0" by (simp add: env0_def)
  have h2: "files world_full ''t.db'' = Some ?f" by (simp add: world_full_fields)
  have h3: "unat (header_size cfg0) \<le> st_size ?f" by (simp add: cfg0_def)
  have h4: "hdr_mmap_ret env0 = Some 9000" by (simp add: env0_def)
  have h5: "ht_is_valid cfg0 (content ?f)" by (simp add: table0_valid)
  have W: "ht_map ?W = ht_map world_full" "ht_idx ?W = ht_idx world_full"
    by (simp_all add: munmap_def access_def mylock_def)
  have "shmht_open cfg0 env0 ''t.db'' 0 0 world_full =
      create_table cfg0 env0 ''t.db'' 5000 288 4 0 ?W"
    using open_noforce_valid [OF h1 h2 h3 h4 h5, of 0]
    by (simp add: env0_def cfg0_def table0_def)
  moreover have "fst (create_table cfg0 env0 ''t.db'' 5000 288 4 0 ?W) = None"
    and "err (snd (create_table cfg0 env0 ''t.db'' 5000 288 4 0 ?W)) =
      Some (ShmhtError ExceededMaxEntries)"
    by (rule create_table_registry_full [where b = 9001];
        simp add: W world_full_search env0_fields)+
  ultimately show ?thesis
    using h2 table0_valid by simp
qed

subsection \<open>No capacity for a new table\<close>

text \<open>
  Claim C7, as amended. When a new table must be created (\<^verbatim>\<open>force_init\<close> is set, or the
  file holds no valid header: it is new, too short for a header, or its header is not
  valid) and the requested capacity is zero, open fails, whatever the system calls return,
  and creates nothing: the registry is as before and no mapping has been added. The error
  is the one that asks for a capacity whenever the file has been opened and, where the
  header is looked at, the header has been mapped; the descriptor is then closed and
  unlocked, and the file is as it was (empty, if open has just created it). In the two
  cases that are left the error is that of the system call: when \<^verbatim>\<open>open\<close> fails, the error
  of \<^verbatim>\<open>open\<close> and a state that is otherwise as before; when the header is looked at and
  its \<^verbatim>\<open>mmap\<close> fails, the error of that \<^verbatim>\<open>mmap\<close>, with the descriptor closed and unlocked.
\<close>

theorem open_without_capacity:
  assumes f: "f = (case files w name of None \<Rightarrow> new_file | Some g \<Rightarrow> g)"
    and creating: "force_init \<noteq> 0 \<or> st_size f < unat (header_size cfg) \<or>
        \<not> ht_is_valid cfg (content f)"
  shows "fst (shmht_open cfg env name 0 force_init w) = None \<and>
         ht_map (snd (shmht_open cfg env name 0 force_init w)) = ht_map w \<and>
         ht_idx (snd (shmht_open cfg env name 0 force_init w)) = ht_idx w \<and>
         dom (mappings (snd (shmht_open cfg env name 0 force_init w))) \<subseteq> dom (mappings w) \<and>
         (0 \<le> open_ret env \<and>
          (force_init = 0 \<and> unat (header_size cfg) \<le> st_size f \<longrightarrow> hdr_mmap_ret env \<noteq> None) \<longrightarrow>
            err (snd (shmht_open cfg env name 0 force_init w)) =
              Some (ShmhtError CapacityRequired) \<and>
            fdtab (snd (shmht_open cfg env name 0 force_init w)) (open_ret env) = None \<and>
            open_ret env \<notin> flocked (snd (shmht_open cfg env name 0 force_init w)) \<and>
            files (snd (shmht_open cfg env name 0 force_init w)) = (files w)(name \<mapsto> f)) \<and>
         (open_ret env < 0 \<longrightarrow>
            snd (shmht_open cfg env name 0 force_init w) =
              w\<lparr>err := Some (ShmhtError OpenFailed)\<rparr>) \<and>
         (0 \<le> open_ret env \<and> force_init = 0 \<and> unat (header_size cfg) \<le> st_size f \<and>
          hdr_mmap_ret env = None \<longrightarrow>
            err (snd (shmht_open cfg env name 0 force_init w)) =
              Some (ShmhtError HeaderMmapFailed) \<and>
            fdtab (snd (shmht_open cfg env name 0 force_init w)) (open_ret env) = None \<and>
            open_ret env \<notin> flocked (snd (shmht_open cfg env name 0 force_init w)) \<and>
            files (snd (shmht_open cfg env name 0 force_init w)) = (files w)(name \<mapsto> f))"
proof -
  let ?r = "shmht_open cfg env name 0 force_init w"
  have untouched: "fst ?r = None \<and> ht_map (snd ?r) = ht_map w \<and> ht_idx (snd ?r) = ht_idx w \<and>
      dom (mappings (snd ?r)) \<subseteq> dom (mappings w)"
  proof (cases "0 \<le> open_ret env \<and>
      (force_init = 0 \<and> unat (header_size cfg) \<le> st_size f \<longrightarrow> hdr_mmap_ret env \<noteq> None)")
    case True
    then have opened: "0 \<le> open_ret env" by simp
    have c: "force_init \<noteq> 0 \<or> st_size f < unat (header_size cfg) \<or>
        (hdr_mmap_ret env \<noteq> None \<and> \<not> ht_is_valid cfg (content f))"
      using True creating by auto
    from open_creation_path [OF opened f c, of 0]
    obtain W where r: "?r = create_table cfg env name (open_ret env) (st_size f) 0 force_init W"
      and W: "ht_map W = ht_map w" "ht_idx W = ht_idx w" "dom (mappings W) \<subseteq> dom (mappings w)"
      by blast
    show ?thesis
      using W
      by (simp add: r create_table_def create_failed_def Let_def PyErr_Format_def sys_close_def
          myunlock_def)
  next
    case False
    show ?thesis
    proof (cases "0 \<le> open_ret env")
      case neg: False
      then show ?thesis
        by (simp add: shmht_open_def Let_def PyErr_Format_def)
    next
      case pos: True
      with False have h: "force_init = 0" "unat (header_size cfg) \<le> st_size f"
        "hdr_mmap_ret env = None"
        by auto
      show ?thesis
        using pos h f
        by (simp add: shmht_open_def load_existing_def Let_def create_failed_def
            PyErr_Format_def sys_close_def myunlock_def mylock_def munmap_def)
    qed
  qed
  have kind: "err (snd ?r) = Some (ShmhtError CapacityRequired) \<and>
      fdtab (snd ?r) (open_ret env) = None \<and> open_ret env \<notin> flocked (snd ?r) \<and>
      files (snd ?r) = (files w)(name \<mapsto> f)"
    if io: "0 \<le> open_ret env \<and>
      (force_init = 0 \<and> unat (header_size cfg) \<le> st_size f \<longrightarrow> hdr_mmap_ret env \<noteq> None)"
  proof -
    from io have opened: "0 \<le> open_ret env" by simp
    have c: "force_init \<noteq> 0 \<or> st_size f < unat (header_size cfg) \<or>
        (hdr_mmap_ret env \<noteq> None \<and> \<not> ht_is_valid cfg (content f))"
      using io creating by auto
    from open_creation_path [OF opened f c, of 0]
    obtain W where r: "?r = create_table cfg env name (open_ret env) (st_size f) 0 force_init W"
      and W: "files W = (files w)(name \<mapsto> f)"
      by blast
    show ?thesis
      using opened W
      by (simp add: r create_table_def create_failed_def Let_def PyErr_Format_def sys_close_def
          myunlock_def)
  qed
  have no_open: "snd ?r = w\<lparr>err := Some (ShmhtError OpenFailed)\<rparr>" if "open_ret env < 0"
    using that by (simp add: shmht_open_def Let_def PyErr_Format_def)
  have no_header: "err (snd ?r) = Some (ShmhtError HeaderMmapFailed) \<and>
      fdtab (snd ?r) (open_ret env) = None \<and> open_ret env \<notin> flocked (snd ?r) \<and>
      files (snd ?r) = (files w)(name \<mapsto> f)"
    if h: "0 \<le> open_ret env \<and> force_init = 0 \<and> unat (header_size cfg) \<le> st_size f \<and>
      hdr_mmap_ret env = None"
    using h f
    by (simp add: shmht_open_def load_existing_def Let_def create_failed_def
        PyErr_Format_def sys_close_def myunlock_def mylock_def munmap_def)
  show ?thesis
    using untouched kind no_open no_header by blast
qed

lemma world_junk_fields:
  "files world_junk ''junk.db'' = Some junk_file"
  "files world_junk ''/nodir/new.db'' = None"
  "st_size junk_file = 100"
  "\<not> ht_is_valid cfg0 (content junk_file)"
  "unat (header_size cfg0) = 32"
  by (simp_all add: world_junk_def world0_def junk_file_def ht_is_valid_def cfg0_def)

theorem open_without_capacity_witness:
  "fst (shmht_open cfg0 env0 ''t.db'' 0 1 world0) = None \<and>
   err (snd (shmht_open cfg0 env0 ''t.db'' 0 1 world0)) = Some (ShmhtError CapacityRequired) \<and>
   files (snd (shmht_open cfg0 env0 ''t.db'' 0 1 world0)) ''t.db'' =
     Some \<lparr>st_size = 288, content = table0\<rparr> \<and>
   fst (shmht_open cfg0 env0 ''new.db'' 0 0 world0) = None \<and>
   err (snd (shmht_open cfg0 env0 ''new.db'' 0 0 world0)) = Some (ShmhtError CapacityRequired) \<and>
   ht_map (snd (shmht_open cfg0 env0 ''new.db'' 0 0 world0)) = ht_map world0 \<and>
   dom (mappings (snd (shmht_open cfg0 env0 ''new.db'' 0 0 world0))) \<subseteq> {7} \<and>
   fst (shmht_open cfg0 env0 ''junk.db'' 0 0 world_junk) = None \<and>
   err (snd (shmht_open cfg0 env0 ''junk.db'' 0 0 world_junk)) =
     Some (ShmhtError CapacityRequired) \<and>
   fst (shmht_open cfg0 env_enomem ''junk.db'' 0 0 world_junk) = None \<and>
   err (snd (shmht_open cfg0 env_enomem ''junk.db'' 0 0 world_junk)) =
     Some (ShmhtError HeaderMmapFailed) \<and>
   5000 \<notin> flocked (snd (shmht_open cfg0 env_enomem ''junk.db'' 0 0 world_junk)) \<and>
   fst (shmht_open cfg0 env_enoent ''/nodir/new.db'' 0 0 world_junk) = None \<and>
   snd (shmht_open cfg0 env_enoent ''/nodir/new.db'' 0 0 world_junk) =
     world_junk\<lparr>err := Some (ShmhtError OpenFailed)\<rparr>"
proof -
  let ?f = "\<lparr>st_size = 288, content = table0\<rparr>"
  have f1: "?f = (case files world0 ''t.db'' of None \<Rightarrow> new_file | Some g \<Rightarrow> g)"
    by (simp add: world0_fields)
  have c1: "(1::int) \<noteq> 0 \<or> st_size ?f < unat (header_size cfg0) \<or>
      \<not> ht_is_valid cfg0 (content ?f)"
    by simp
  have io1: "0 \<le> open_ret env0 \<and>
      ((1::int) = 0 \<and> unat (header_size cfg0) \<le> st_size ?f \<longrightarrow> hdr_mmap_ret env0 \<noteq> None)"
    by (simp add: env0_fields)
  have f2: "new_file = (case files world0 ''new.db'' of None \<Rightarrow> new_file | Some g \<Rightarrow> g)"
    by (simp add: world0_def)
  have c2: "(0::int) \<noteq> 0 \<or> st_size new_file < unat (header_size cfg0) \<or>
      \<not> ht_is_valid cfg0 (content new_file)"
    by (simp add: new_file_def cfg0_def)
  have io2: "0 \<le> open_ret env0 \<and>
      ((0::int) = 0 \<and> unat (header_size cfg0) \<le> st_size new_file \<longrightarrow>
         hdr_mmap_ret env0 \<noteq> None)"
    by (simp add: env0_fields)
  have f3: "junk_file = (case files world_junk ''junk.db'' of None \<Rightarrow> new_file | Some g \<Rightarrow> g)"
    by (simp add: world_junk_fields)
  have c3: "(0::int) \<noteq> 0 \<or> st_size junk_file < unat (header_size cfg0) \<or>
      \<not> ht_is_valid cfg0 (content junk_file)"
    by (simp add: world_junk_fields)
  have io3: "0 \<le> open_ret env0 \<and>
      ((0::int) = 0 \<and> unat (header_size cfg0) \<le> st_size junk_file \<longrightarrow>
         hdr_mmap_ret env0 \<noteq> None)"
    by (simp add: env0_fields)
  have io4: "0 \<le> open_ret env_enomem \<and> (0::int) = 0 \<and>
      unat (header_size cfg0) \<le> st_size junk_file \<and> hdr_mmap_ret env_enomem = None"
    by (simp add: env_enomem_def world_junk_fields)
  have f5: "new_file =
      (case files world_junk ''/nodir/new.db'' of None \<Rightarrow> new_file | Some g \<Rightarrow> g)"
    by (simp add: world_junk_fields)
  have io5: "open_ret env_enoent < 0"
    by (simp add: env_enoent_def)
  have d: "dom (mappings world0) = {7}"
    by (simp add: world0_def)
  note t1 = open_without_capacity [OF f1 c1, of env0]
  note t2 = open_without_capacity [OF f2 c2, of env0]
  note t3 = open_without_capacity [OF f3 c3, of env0]
  note t4 = open_without_capacity [OF f3 c3, of env_enomem]
  note t5 = open_without_capacity [OF f5 c2, of env_enoent]
  from t1 io1 have a: "fst (shmht_open cfg0 env0 ''t.db'' 0 1 world0) = None \<and>
      err (snd (shmht_open cfg0 env0 ''t.db'' 0 1 world0)) = Some (ShmhtError CapacityRequired) \<and>
      files (snd (shmht_open cfg0 env0 ''t.db'' 0 1 world0)) = (files world0)(''t.db'' \<mapsto> ?f)"
    by blast
  from t2 io2 have b: "fst (shmht_open cfg0 env0 ''new.db'' 0 0 world0) = None \<and>
      err (snd (shmht_open cfg0 env0 ''new.db'' 0 0 world0)) = Some (ShmhtError CapacityRequired) \<and>
      ht_map (snd (shmht_open cfg0 env0 ''new.db'' 0 0 world0)) = ht_map world0 \<and>
      dom (mappings (snd (shmht_open cfg0 env0 ''new.db'' 0 0 world0))) \<subseteq> dom (mappings world0)"
    by blast
  from t3 io3 have c: "fst (shmht_open cfg0 env0 ''junk.db'' 0 0 world_junk) = None \<and>
      err (snd (shmht_open cfg0 env0 ''junk.db'' 0 0 world_junk)) =
        Some (ShmhtError CapacityRequired)"
    by blast
  from t4 io4 have e: "fst (shmht_open cfg0 env_enomem ''junk.db'' 0 0 world_junk) = None \<and>
      err (snd (shmht_open cfg0 env_enomem ''junk.db'' 0 0 world_junk)) =
        Some (ShmhtError HeaderMmapFailed) \<and>
      open_ret env_enomem \<notin> flocked (snd (shmht_open cfg0 env_enomem ''junk.db'' 0 0 world_junk))"
    by blast
  from t5 io5 have g: "fst (shmht_open cfg0 env_enoent ''/nodir/new.db'' 0 0 world_junk) = None \<and>
      snd (shmht_open cfg0 env_enoent ''/nodir/new.db'' 0 0 world_junk) =
        world_junk\<lparr>err := Some (ShmhtError OpenFailed)\<rparr>"
    by blast
  have o: "open_ret env_enomem = 5000"
    by (simp add: env_enomem_def)
  show ?thesis
    using a b c e g by (simp add: d o)
qed

text \<open>
  The claim as it was stated fails where the file cannot be opened: the error is then that
  of \<^verbatim>\<open>open\<close>, also with \<^verbatim>\<open>force_init\<close> set and no capacity.
\<close>

theorem open_without_capacity_io_error:
  "fst (shmht_open cfg0 env_enoent ''/nodir/t.db'' 0 1 world0) = None \<and>
   err (snd (shmht_open cfg0 env_enoent ''/nodir/t.db'' 0 1 world0)) =
     Some (ShmhtError OpenFailed)"
  by (simp add: shmht_open_def env_enoent_def Let_def PyErr_Format_def)

subsection \<open>A failed open that has rewritten the file\<close>

text \<open>
  Claim C8. Open can fail with the registry-capacity error after the file has been
  extended, mapped and initialised: with \<^verbatim>\<open>force_init\<close> set, a capacity that is not zero
  and system calls that succeed, in a process whose registry is full, open returns the
  error, and the file then holds a fresh, empty table of the requested capacity, whatever
  it held before, at a length that is at least what that capacity needs.
\<close>

theorem failed_open_has_rewritten_file:
  assumes forced: "force_init \<noteq> 0"
    and cap: "capacity \<noteq> 0"
    and opened: "0 \<le> open_ret env"
    and f: "f = (case files w name of None \<Rightarrow> new_file | Some g \<Rightarrow> g)"
    and grow: "st_size f < unat (ht_memory_size cfg capacity) \<longrightarrow> lseek_ok env \<and> write_ok env"
    and mapped: "mmap_ret env = Some b"
    and idx: "- 1 \<le> ht_idx w"
    and full: "\<forall>i. 0 \<le> i \<and> i < max_ht_map_entries \<longrightarrow> ht (ht_map w i) \<noteq> NULL"
  shows "fst (shmht_open cfg env name capacity force_init w) = None \<and>
         err (snd (shmht_open cfg env name capacity force_init w)) =
           Some (ShmhtError ExceededMaxEntries) \<and>
         files (snd (shmht_open cfg env name capacity force_init w)) name =
           Some \<lparr>st_size = max (st_size f) (unat (ht_memory_size cfg capacity)),
                 content = \<lparr>magic = HT_MAGIC cfg, orig_capacity = capacity, entry_count = 0,
                             slots = replicate (unat capacity) Empty\<rparr>\<rparr> \<and>
         ht_map (snd (shmht_open cfg env name capacity force_init w)) = ht_map w"
proof -
  have creating: "force_init \<noteq> 0 \<or> st_size f < unat (header_size cfg) \<or>
        (hdr_mmap_ret env \<noteq> None \<and> \<not> ht_is_valid cfg (content f))"
    using forced by simp
  from open_creation_path [OF opened f creating, of capacity]
  obtain W where r: "shmht_open cfg env name capacity force_init w =
        create_table cfg env name (open_ret env) (st_size f) capacity force_init W"
    and W: "ht_map W = ht_map w" "ht_idx W = ht_idx w" "files W = (files w)(name \<mapsto> f)"
    by blast
  have search: "snd (slot_search (ht_map W) (ht_idx W) 0) = 2048"
    unfolding W using idx full
    by (intro slot_search_all_occupied) (simp_all add: max_ht_map_entries_def)
  note res = create_table_registry_full [OF cap grow mapped search,
      of name "open_ret env" force_init]
  have hm: "ht_map (snd (create_table cfg env name (open_ret env) (st_size f) capacity
      force_init W)) = ht_map w"
    using cap grow mapped search
    by (auto simp: create_table_def Let_def create_failed_fields register_segment_cases
        access_def PyErr_Format_def max_ht_map_entries_def W)
  show ?thesis
    using res hm forced by (auto simp: r W ht_init_def max_def)
qed

theorem failed_open_has_rewritten_file_witness:
  "ht_entries (slots table0) = [(''a'', ''1''), (''b'', ''2'')] \<and>
   files world_full ''t.db'' = Some \<lparr>st_size = 288, content = table0\<rparr> \<and>
   fst (shmht_open cfg0 env0 ''t.db'' 2 1 world_full) = None \<and>
   err (snd (shmht_open cfg0 env0 ''t.db'' 2 1 world_full)) =
     Some (ShmhtError ExceededMaxEntries) \<and>
   files (snd (shmht_open cfg0 env0 ''t.db'' 2 1 world_full)) ''t.db'' =
     Some \<lparr>st_size = 288,
           content = \<lparr>magic = 0x73686D68, orig_capacity = 2, entry_count = 0,
                       slots = [Empty, Empty]\<rparr>\<rparr>"
proof -
  let ?f = "\<lparr>st_size = 288, content = table0\<rparr>"
  have h1: "(1::int) \<noteq> 0" by simp
  have h2: "(2::64 word) \<noteq> 0" by simp
  have h3: "0 \<le> open_ret env0" by (simp add: env0_fields)
  have h4: "?f = (case files world_full ''t.db'' of None \<Rightarrow> new_file | Some g \<Rightarrow> g)"
    by (simp add: world_full_fields)
  have h5: "st_size ?f < unat (ht_memory_size cfg0 2) \<longrightarrow> lseek_ok env0 \<and> write_ok env0"
    by (simp add: env0_fields)
  have h6: "mmap_ret env0 = Some 9001" by (simp add: env0_fields)
  have h7: "- 1 \<le> ht_idx world_full" by (simp add: world_full_fields)
  have h8: "\<forall>i. 0 \<le> i \<and> i < max_ht_map_entries \<longrightarrow> ht (ht_map world_full i) \<noteq> NULL"
    by (simp add: world_full_fields max_ht_map_entries_def)
  have msz: "unat (ht_memory_size cfg0 2) = 160"
    by (simp add: ht_memory_size_def cfg0_def)
  have two: "replicate 2 Empty = [Empty, Empty]"
    by (simp add: numeral_2_eq_2)
  show ?thesis
    using failed_open_has_rewritten_file [OF h1 h2 h3 h4 h5 h6 h7 h8]
    by (simp add: msz two world_full_fields) (simp add: table0_def cfg0_def)
qed

subsection \<open>A negative capacity\<close>











section \<open>The operations that keep to the lock\<close>

text \<open>
  Open, set, remove and foreach touch the mapped table only between \<^verbatim>\<open>mylock\<close> and
  \<^verbatim>\<open>myunlock\<close>, and so does get when it does not find the key; every operation returns
  with the lock released. The copy of the value in get is the one touch that is left out.
  For foreach this is said of a visitor that does not call the module again, the only
  kind that the type of visitors describes: a visitor that called get, set or remove on the handle
  that is being scanned would release the lock in the middle of the scan, and the touches
  of the rest of the scan would be without it.
\<close>

lemma guarded_append: "guarded (xs @ ys) = (guarded xs \<and> guarded ys)"
  by (induction xs rule: guarded.induct) simp_all

lemma under_lock_iff:
  "under_lock w w' \<longleftrightarrow> (\<exists>es. trace w' = trace w @ es \<and> guarded es)"
proof
  assume "under_lock w w'"
  then have "trace w' = trace w @ drop (length (trace w)) (trace w')"
    and "guarded (drop (length (trace w)) (trace w'))"
    unfolding under_lock_def by (metis append_take_drop_id, simp)
  then show "\<exists>es. trace w' = trace w @ es \<and> guarded es"
    by blast
next
  assume "\<exists>es. trace w' = trace w @ es \<and> guarded es"
  then show "under_lock w w'"
    unfolding under_lock_def by auto
qed

lemma under_lock_refl: "trace w' = trace w \<Longrightarrow> under_lock w w'"
  by (simp add: under_lock_iff)

lemma under_lock_trans: "under_lock w w1 \<Longrightarrow> under_lock w1 w2 \<Longrightarrow> under_lock w w2"
  by (auto simp: under_lock_iff guarded_append)

lemma under_lock_step: "trace w' = trace w @ es \<Longrightarrow> guarded es \<Longrightarrow> under_lock w w'"
  by (auto simp: under_lock_iff)

lemma visit_all_trace:
  "d \<in> flocked w \<Longrightarrow>
   under_lock w (visit_all cb p d es w) \<and> flocked (visit_all cb p d es w) = flocked w"
proof (induction es arbitrary: w)
  case Nil
  then show ?case
    by (auto simp: access_def intro!: under_lock_step)
next
  case (Cons e es)
  obtain k v where e: "e = (k, v)" by (cases e)
  let ?w1 = "call_visitor cb k v (access p d w)"
  have s1: "under_lock w ?w1" and f1: "flocked ?w1 = flocked w"
    using Cons.prems
    by (auto simp: call_visitor_def access_def Let_def intro!: under_lock_step split: option.splits)
  from Cons.IH [of ?w1] Cons.prems f1
  have "under_lock ?w1 (visit_all cb p d es ?w1) \<and> flocked (visit_all cb p d es ?w1) = flocked ?w1"
    by simp
  with s1 f1 show ?case
    by (auto simp: e intro: under_lock_trans)
qed

lemma foreach_under_lock:
  "under_lock w (snd (shmht_foreach idx cb w)) \<and>
   (\<not> invalid_id w idx \<longrightarrow> fd (ht_map w idx) \<notin> flocked (snd (shmht_foreach idx cb w)) \<or>
      fst (shmht_foreach idx cb w) = None)"
proof (cases "invalid_id w idx \<or> cb = NotCallable")
  case True
  then show ?thesis
    by (auto simp: shmht_foreach_def PyErr_Format_def intro!: under_lock_refl
        split: visitor.splits)
next
  case False
  then obtain f where cb: "cb = Callable f" by (cases cb) auto
  let ?d = "fd (ht_map w idx)"
  let ?w1 = "mylock ?d w"
  have l: "under_lock w ?w1" "?d \<in> flocked ?w1"
    by (auto simp: mylock_def intro!: under_lock_step)
  show ?thesis
  proof (cases "table_at ?w1 (ht (ht_map w idx))")
    case None
    then show ?thesis
      using False cb l
      by (auto simp: shmht_foreach_def Let_def PyErr_Format_def under_lock_iff)
  next
    case (Some t)
    let ?w2 = "visit_all f (ht (ht_map w idx)) ?d (ht_entries (slots t)) ?w1"
    from visit_all_trace [OF l(2)]
    have v: "under_lock ?w1 ?w2" by blast
    have u: "under_lock ?w2 (myunlock ?d ?w2)"
      by (auto simp: myunlock_def intro!: under_lock_step)
    have "under_lock w (myunlock ?d ?w2)"
      using l(1) v u by (blast intro: under_lock_trans)
    then show ?thesis
      using False cb Some
      by (simp add: shmht_foreach_def Let_def myunlock_def)
  qed
qed

lemma table_update_keeps:
  "trace (table_update p t w) = trace w" "flocked (table_update p t w) = flocked w"
  by (simp_all add: table_update_def split: ptr.splits option.splits)

lemma locked_update_under_lock:
  "under_lock w (myunlock d (table_update p t (access p d (mylock d w))))"
  by (rule under_lock_step [where es = "[EvLock d, EvAccess p True, EvUnlock d]"])
     (simp_all add: myunlock_def table_update_keeps access_def mylock_def)

lemma lock_only_under_lock: "under_lock w (mylock d w)"
  by (rule under_lock_step [where es = "[EvLock d]"]) (simp_all add: mylock_def)

lemma setval_under_lock:
  "under_lock w (snd (shmht_setval cfg idx key val w))"
proof (cases "invalid_id w idx")
  case True
  then show ?thesis
    by (simp add: shmht_setval_def PyErr_Format_def under_lock_refl)
next
  case False
  let ?d = "fd (ht_map w idx)" and ?p = "ht (ht_map w idx)"
  show ?thesis
  proof (cases "table_at (mylock ?d w) ?p")
    case None
    have "under_lock w (PyErr_Format Segfault (mylock ?d w))"
      using lock_only_under_lock [of w ?d] by (simp add: under_lock_iff PyErr_Format_def)
    then show ?thesis
      using False None by (simp add: shmht_setval_def Let_def)
  next
    case (Some t)
    let ?w3 = "myunlock ?d (table_update ?p (snd (ht_set cfg t key val)) (access ?p ?d (mylock ?d w)))"
    have "under_lock w ?w3"
      by (rule locked_update_under_lock)
    then have "under_lock w (PyErr_Format (ShmhtError InsertFailed) ?w3)"
      by (simp add: under_lock_iff PyErr_Format_def)
    then show ?thesis
      using False Some \<open>under_lock w ?w3\<close>
      by (simp add: shmht_setval_def Let_def split_beta)
  qed
qed

lemma remove_under_lock:
  "under_lock w (snd (shmht_remove cfg idx key w))"
proof (cases "invalid_id w idx")
  case True
  then show ?thesis
    by (simp add: shmht_remove_def PyErr_Format_def under_lock_refl)
next
  case False
  let ?d = "fd (ht_map w idx)" and ?p = "ht (ht_map w idx)"
  show ?thesis
  proof (cases "table_at (mylock ?d w) ?p")
    case None
    have "under_lock w (PyErr_Format Segfault (mylock ?d w))"
      using lock_only_under_lock [of w ?d] by (simp add: under_lock_iff PyErr_Format_def)
    then show ?thesis
      using False None by (simp add: shmht_remove_def Let_def)
  next
    case (Some t)
    let ?w3 = "myunlock ?d (table_update ?p (snd (ht_remove cfg t key)) (access ?p ?d (mylock ?d w)))"
    have "under_lock w ?w3"
      by (rule locked_update_under_lock)
    then show ?thesis
      using False Some
      by (simp add: shmht_remove_def Let_def split_beta)
  qed
qed

lemma under_lock_same: "under_lock w w1 \<Longrightarrow> trace w2 = trace w1 \<Longrightarrow> under_lock w w2"
  by (simp add: under_lock_iff)

lemma create_failed_under_lock:
  "under_lock w w1 \<Longrightarrow> under_lock w (snd (create_failed d p w1))"
proof -
  assume a: "under_lock w w1"
  have "under_lock w1 (snd (create_failed d p w1))"
  proof (cases "0 \<le> d")
    case True
    then have "trace (snd (create_failed d p w1)) = trace w1 @ [EvUnlock d]"
      by (simp add: create_failed_def Let_def sys_close_def myunlock_def munmap_def
          split: ptr.splits)
    then show ?thesis by (rule under_lock_step) simp
  next
    case False
    then have "trace (snd (create_failed d p w1)) = trace w1"
      by (simp add: create_failed_def Let_def munmap_def split: ptr.splits)
    then show ?thesis by (rule under_lock_refl)
  qed
  with a show ?thesis by (rule under_lock_trans)
qed

lemma register_segment_under_lock:
  "under_lock w (snd (register_segment d msz p w))"
proof (cases "max_ht_map_entries \<le> snd (slot_search (ht_map w) (ht_idx w) 0)")
  case True
  have "under_lock w (PyErr_Format (ShmhtError ExceededMaxEntries)
      (w\<lparr>ht_idx := fst (slot_search (ht_map w) (ht_idx w) 0)\<rparr>))"
    by (rule under_lock_refl) (simp add: PyErr_Format_def)
  then show ?thesis
    using True by (simp add: register_segment_cases create_failed_under_lock)
next
  case False
  then show ?thesis
    by (simp add: register_segment_cases)
       (rule under_lock_step [where es = "[EvUnlock d]"]; simp add: myunlock_def)
qed

lemma create_table_under_lock:
  assumes "d \<in> flocked w"
  shows "under_lock w (snd (create_table cfg env name d st capacity fi w))"
proof -
  have e: "under_lock w (PyErr_Format x w)" for x
    by (rule under_lock_refl) (simp add: PyErr_Format_def)
  have e': "under_lock w (PyErr_Format x (w\<lparr>files := y\<rparr>))" for x y
    by (rule under_lock_refl) (simp add: PyErr_Format_def)
  have m: "under_lock w (snd (register_segment d msz (Addr a) w4))"
    if "trace w4 = trace w @ [EvAccess (Addr a) True]" for msz a w4
  proof -
    have "under_lock w w4" using that by (rule under_lock_step) simp
    then show ?thesis
      using register_segment_under_lock [of w4 d msz "Addr a"] by (rule under_lock_trans)
  qed
  show ?thesis
    using assms
    by (auto simp: create_table_def Let_def access_def intro!: create_failed_under_lock e e' m
        split: option.splits)
qed

lemma load_existing_under_lock:
  assumes d: "d \<in> flocked w"
  shows "case load_existing cfg env name d f capacity w of
           Inl r \<Rightarrow> under_lock w (snd r)
         | Inr (c, w3) \<Rightarrow> under_lock w w3 \<and> d \<in> flocked w3"
proof (cases "unat (header_size cfg) \<le> st_size f")
  case False
  then show ?thesis
    by (simp add: load_existing_def under_lock_refl d)
next
  case long: True
  show ?thesis
  proof (cases "hdr_mmap_ret env")
    case None
    have "under_lock w (PyErr_Format (ShmhtError HeaderMmapFailed) w)"
      by (rule under_lock_refl) (simp add: PyErr_Format_def)
    then show ?thesis
      using long None by (simp add: load_existing_def create_failed_under_lock)
  next
    case (Some a)
    let ?w2 = "access (Addr a) d (w\<lparr>mappings := (mappings w)(a \<mapsto> (name, header_size cfg))\<rparr>)"
    have t: "trace ?w2 = trace w @ [EvAccess (Addr a) True]" and fl: "flocked ?w2 = flocked w"
      using d by (simp_all add: access_def)
    have u: "under_lock w ?w2"
      using t by (rule under_lock_step) simp
    have bad: "under_lock w (snd (create_failed d (Addr a)
        (PyErr_Format (ShmhtError SmallerCapacity) ?w2)))"
      by (rule create_failed_under_lock, rule under_lock_same [OF u])
         (simp add: PyErr_Format_def)
    have go: "under_lock w (snd (munmap (Addr a) ?w2)) \<and> d \<in> flocked (snd (munmap (Addr a) ?w2))"
      using u d by (simp add: munmap_def under_lock_iff access_def)
    show ?thesis
      using long Some bad go by (simp add: load_existing_def Let_def)
  qed
qed

lemma open_under_lock:
  "under_lock w (snd (shmht_open cfg env name capacity force_init w))"
proof (cases "open_ret env < 0")
  case True
  then show ?thesis
    by (simp add: shmht_open_def Let_def PyErr_Format_def under_lock_refl)
next
  case False
  let ?d = "open_ret env"
  let ?f = "case files w name of None \<Rightarrow> new_file | Some f \<Rightarrow> f"
  let ?w2 = "mylock ?d (w\<lparr>files := (files w)(name \<mapsto> ?f), fdtab := (fdtab w)(?d \<mapsto> name)\<rparr>)"
  have l: "under_lock w ?w2"
    by (rule under_lock_step [where es = "[EvLock ?d]"]) (simp_all add: mylock_def)
  have d: "?d \<in> flocked ?w2"
    by (simp add: mylock_def)
  show ?thesis
  proof (cases "force_init = 0")
    case forced: False
    have "under_lock ?w2 (snd (create_table cfg env name ?d (st_size ?f) capacity force_init ?w2))"
      by (rule create_table_under_lock [OF d])
    with l have "under_lock w (snd (create_table cfg env name ?d (st_size ?f) capacity
        force_init ?w2))"
      by (rule under_lock_trans)
    then show ?thesis
      using False forced by (simp add: shmht_open_def Let_def)
  next
    case True
    note le = load_existing_under_lock [OF d, of cfg env name ?f capacity]
    show ?thesis
    proof (cases "load_existing cfg env name ?d ?f capacity ?w2")
      case (Inl r)
      with le have "under_lock ?w2 (snd r)" by simp
      with l have "under_lock w (snd r)" by (rule under_lock_trans)
      then show ?thesis
        using False True Inl by (simp add: shmht_open_def Let_def)
    next
      case (Inr cw)
      obtain c w3 where cw: "cw = (c, w3)" by (cases cw)
      from le Inr cw have w3: "under_lock ?w2 w3" "?d \<in> flocked w3" by simp_all
      have "under_lock w3 (snd (create_table cfg env name ?d (st_size ?f) c force_init w3))"
        by (rule create_table_under_lock [OF w3(2)])
      with l w3(1) have "under_lock w (snd (create_table cfg env name ?d (st_size ?f) c
          force_init w3))"
        by (blast intro: under_lock_trans)
      then show ?thesis
        using False True Inr cw by (simp add: shmht_open_def Let_def)
    qed
  qed
qed

lemma table_at_cong:
  "files w' = files w \<Longrightarrow> mappings w' = mappings w \<Longrightarrow> table_at w' p = table_at w p"
  by (auto simp: table_at_def split: ptr.splits option.splits)

lemma table_at_lock_free:
  "table_at (mylock d w) p = table_at w p"
  "table_at (myunlock d w) p = table_at w p"
  "table_at (access q d w) p = table_at w p"
  by (rule table_at_cong; simp add: mylock_def myunlock_def access_def)+

lemma lock_fields:
  "ht_map (mylock d w) = ht_map w"
  "flocked (mylock d w) = insert d (flocked w)"
  "flocked (myunlock d w) = flocked w - {d}"
  "flocked (access p d w) = flocked w"
  "flocked (PyErr_Format e w) = flocked w"
  by (simp_all add: mylock_def myunlock_def access_def PyErr_Format_def)

lemma handle_ops_release_lock:
  assumes "\<not> invalid_id w idx" and "table_at w (ht (ht_map w idx)) = Some t"
  shows "fd (ht_map w idx) \<notin> flocked (snd (shmht_getval cfg idx key w))"
    and "fd (ht_map w idx) \<notin> flocked (snd (shmht_setval cfg idx key val w))"
    and "fd (ht_map w idx) \<notin> flocked (snd (shmht_remove cfg idx key w))"
    and "fd (ht_map w idx) \<notin> flocked (snd (shmht_foreach idx (Callable f) w))"
proof -
  let ?d = "fd (ht_map w idx)" and ?p = "ht (ht_map w idx)"
  show "?d \<notin> flocked (snd (shmht_getval cfg idx key w))"
    using assms
    by (simp add: shmht_getval_def Let_def lock_fields table_at_lock_free split: option.splits)
  show "?d \<notin> flocked (snd (shmht_setval cfg idx key val w))"
    using assms
    by (simp add: shmht_setval_def Let_def split_beta lock_fields table_at_lock_free)
  show "?d \<notin> flocked (snd (shmht_remove cfg idx key w))"
    using assms
    by (simp add: shmht_remove_def Let_def split_beta lock_fields table_at_lock_free)
  show "?d \<notin> flocked (snd (shmht_foreach idx (Callable f) w))"
    using assms
    by (simp add: shmht_foreach_def Let_def lock_fields table_at_lock_free)
qed

lemma getval_miss_under_lock:
  assumes "\<not> invalid_id w idx" and "table_at w (ht (ht_map w idx)) = Some t"
    and "ht_get cfg t key = None"
  shows "fst (shmht_getval cfg idx key w) = Some PyNone"
    and "under_lock w (snd (shmht_getval cfg idx key w))"
proof -
  let ?d = "fd (ht_map w idx)" and ?p = "ht (ht_map w idx)"
  have t1: "table_at (mylock ?d w) ?p = Some t"
    using assms(2) by (simp add: table_at_lock_free)
  have hm: "ht_map (mylock ?d w) = ht_map w"
    by (simp add: mylock_def)
  show "fst (shmht_getval cfg idx key w) = Some PyNone"
    using assms t1 by (simp add: shmht_getval_def Let_def hm)
  have "under_lock w (myunlock ?d (access ?p ?d (mylock ?d w)))"
    by (rule under_lock_step [where es = "[EvLock ?d, EvAccess ?p True, EvUnlock ?d]"])
       (simp_all add: myunlock_def access_def mylock_def)
  then show "under_lock w (snd (shmht_getval cfg idx key w))"
    using assms t1 by (simp add: shmht_getval_def Let_def hm)
qed

lemma create_failed_releases: "d \<notin> flocked (snd (create_failed d p w)) \<or> d < 0"
  by (simp add: create_failed_def Let_def sys_close_def myunlock_def munmap_def
      split: ptr.splits option.splits)

lemma open_releases_lock:
  assumes "0 \<le> open_ret env"
  shows "open_ret env \<notin> flocked (snd (shmht_open cfg env name capacity force_init w))"
proof -
  let ?d = "open_ret env"
  have cf: "?d \<notin> flocked (snd (create_failed ?d p x))" for p x
    using create_failed_releases [of ?d p x] assms by simp
  have rs: "?d \<notin> flocked (snd (register_segment ?d msz p x))" for msz p x
    by (simp add: register_segment_cases cf myunlock_def)
  have ct: "?d \<notin> flocked (snd (create_table cfg env name ?d st c fi x))" for st c fi x
    by (simp add: create_table_def Let_def cf rs split: option.splits)
  have le: "case load_existing cfg env name ?d f capacity x of
      Inl r \<Rightarrow> ?d \<notin> flocked (snd r) | Inr cw \<Rightarrow> True" for f x
    by (simp add: load_existing_def Let_def cf split: option.splits)
  show ?thesis
  proof (cases "force_init = 0")
    case False
    then show ?thesis
      using assms by (simp add: shmht_open_def Let_def ct)
  next
    case True
    let ?f = "case files w name of None \<Rightarrow> new_file | Some f \<Rightarrow> f"
    let ?w2 = "mylock ?d (w\<lparr>files := (files w)(name \<mapsto> ?f), fdtab := (fdtab w)(?d \<mapsto> name)\<rparr>)"
    show ?thesis
    proof (cases "load_existing cfg env name ?d ?f capacity ?w2")
      case (Inl r)
      with le [of ?f ?w2] show ?thesis
        using assms True by (simp add: shmht_open_def Let_def)
    next
      case (Inr cw)
      then show ?thesis
        using assms True by (simp add: shmht_open_def Let_def ct split: prod.splits)
    qed
  qed
qed

section \<open>Foreach on every table\<close>

text \<open>
  On a valid handle, foreach with a callable returns \<^verbatim>\<open>None\<close> whether the visitor returns or
  raises, and the visitor is called on every entry of the table, in the order of the
  arena, also after a call that raised. The visitor is one that does not call the module
  again.
\<close>

lemma foreach_returns_none:
  assumes "\<not> invalid_id w idx" and "table_at w (ht (ht_map w idx)) = Some t"
  shows "fst (shmht_foreach idx (Callable f) w) = Some PyNone"
  using assms by (simp add: shmht_foreach_def Let_def table_at_lock_free)

lemma visit_all_calls:
  "[e \<leftarrow> trace (visit_all cb p d es w). \<exists>k v. e = EvCall k v] =
   [e \<leftarrow> trace w. \<exists>k v. e = EvCall k v] @ map (\<lambda>(k, v). EvCall k v) es"
proof (induction es arbitrary: w)
  case Nil
  then show ?case by (simp add: access_def)
next
  case (Cons e es)
  obtain k v where e: "e = (k, v)" by (cases e)
  show ?case
    by (simp add: e Cons.IH call_visitor_def access_def Let_def split: option.splits)
qed

section \<open>Where the sample state comes from\<close>

text \<open>
  The first open of a process takes slot 0, and after the two sets the files, the
  descriptors, the mappings and the registry are those of the sample state.
\<close>

lemma init_search: "slot_search (ht_map world_init) (ht_idx world_init) 0 = (0, 1)"
proof -
  have "slot_search (ht_map world_init) (- 1) 0 = ((- 1 + 1) mod 2048, 1)"
    by (rule slot_search_next_free) (simp_all add: world_init_def zero_node_def)
  then show ?thesis by (simp add: world_init_def)
qed

lemma first_open:
  "shmht_open cfg0 env_first ''t.db'' 4 0 world_init =
     (Some (PyInt 0),
      world_init\<lparr>files := [''t.db'' \<mapsto> \<lparr>st_size = 288,
          content = \<lparr>magic = 0x73686D68, orig_capacity = 4, entry_count = 0,
                      slots = [Empty, Empty, Empty, Empty]\<rparr>\<rparr>],
        fdtab := [3 \<mapsto> ''t.db''],
        mappings := [7 \<mapsto> (''t.db'', 288)],
        flocked := {},
        ht_map := (\<lambda>i. zero_node)(0 := \<lparr>fd = 3, mem_size = 288, ht = Addr 7\<rparr>),
        ht_idx := 0,
        trace := [EvLock 3, EvAccess (Addr 7) True, EvUnlock 3]\<rparr>)"
proof -
  have four: "replicate 4 Empty = [Empty, Empty, Empty, Empty]"
    by (simp add: numeral_eq_Suc)
  have i: "files world_init = Map.empty" "fdtab world_init = Map.empty"
    "mappings world_init = Map.empty" "flocked world_init = {}" "trace world_init = []"
    "ht_map world_init = (\<lambda>i. zero_node)"
    by (simp_all add: world_init_def)
  have s: "slot_search (\<lambda>i. zero_node) (ht_idx world_init) 0 = (0, 1)"
    using init_search by (simp add: i)
  show ?thesis
    by (simp add: shmht_open_def env_first_def cfg0_def Let_def new_file_def load_existing_def
        mylock_def myunlock_def create_table_def ht_memory_size_def access_def
        register_segment_def ht_init_def ht_is_valid_def i s max_ht_map_entries_def four)
qed

lemma sample_state_reached:
  "files world_built = files world0 \<and> fdtab world_built = fdtab world0 \<and>
   mappings world_built = mappings world0 \<and> flocked world_built = flocked world0 \<and>
   ht_map world_built = ht_map world0 \<and> ht_idx world_built = ht_idx world0 \<and>
   err world_built = err world0"
proof -
  let ?w1 = "snd (shmht_open cfg0 env_first ''t.db'' 4 0 world_init)"
  let ?t0 = "\<lparr>magic = 0x73686D68, orig_capacity = 4, entry_count = 0,
      slots = [Empty, Empty, Empty, Empty]\<rparr> :: hashtable"
  let ?t1 = "\<lparr>magic = 0x73686D68, orig_capacity = 4, entry_count = 1,
      slots = [Empty, Occupied ''a'' ''1'', Empty, Empty]\<rparr> :: hashtable"
  have s1: "ht_set cfg0 ?t0 ''a'' ''1'' = (True, ?t1)"
    by (simp add: ht_set_def probe_seq_def cfg0_def Let_def upt_rec)
  have s2: "ht_set cfg0 ?t1 ''b'' ''2'' = (True, table0)"
    by (simp add: ht_set_def probe_seq_def cfg0_def Let_def upt_rec table0_def)
  have i: "err world_init = None"
    by (simp add: world_init_def)
  show ?thesis
    unfolding world_built_def
    by (simp add: first_open shmht_setval_def invalid_id_def max_ht_map_entries_def Let_def
        mylock_def myunlock_def access_def table_at_def table_update_def s1 s2 world0_def i)
qed

end
